theory Spec2Isabelle
  imports Complex_Main
begin

section \<open>JavaScript values used by the dashboard server\<close>

text \<open>
  The server is JavaScript. A property of an event payload or of an upstream record that
  may be absent is an \<open>option\<close>: \<open>None\<close> is \<open>undefined\<close>/\<open>null\<close>. Wall-clock
  instants (\<open>new Date()\<close>, \<open>Date.now()\<close>, and the ISO strings made from them with
  \<open>toISOString\<close> and read back with \<open>new Date(s)\<close>) are integers, the milliseconds
  since the epoch. Counts and waiting times are integers, small enough for a double to
  hold them exactly.
\<close>

text \<open>Truthiness of a string-valued property: absent and the empty string are falsy.\<close>

fun truthy :: "string option \<Rightarrow> bool" where
  "truthy None = False"
| "truthy (Some s) = (s \<noteq> [])"

text \<open>\<open>a || d\<close> where \<open>d\<close> is a string literal.\<close>

definition or_str :: "string option \<Rightarrow> string \<Rightarrow> string" where
  "or_str a d = (case a of None \<Rightarrow> d | Some s \<Rightarrow> if s = [] then d else s)"

text \<open>\<open>a || b\<close> where \<open>b\<close> is itself a property that may be absent.\<close>

definition or_opt :: "string option \<Rightarrow> string option \<Rightarrow> string option" where
  "or_opt a b = (if truthy a then a else b)"

text \<open>\<open>a || null\<close>.\<close>

definition or_null :: "string option \<Rightarrow> string option" where
  "or_null a = (if truthy a then a else None)"

text \<open>\<open>a || d\<close> where \<open>a\<close> is a number: absent and zero are falsy.\<close>

definition or_num :: "'a::zero option \<Rightarrow> 'a \<Rightarrow> 'a" where
  "or_num a d = (case a of None \<Rightarrow> d | Some n \<Rightarrow> if n = 0 then d else n)"

text \<open>A property inside a template literal: \<open>`${a}`\<close>.\<close>

definition tmpl :: "string option \<Rightarrow> string" where
  "tmpl a = (case a of None \<Rightarrow> ''undefined'' | Some s \<Rightarrow> s)"

text \<open>Decimal rendering of a number inside a template literal or by \<open>toString\<close>.\<close>

function string_of_nat :: "nat \<Rightarrow> string" where
  "string_of_nat n =
     (if n < 10 then [''0123456789'' ! n]
      else string_of_nat (n div 10) @ [''0123456789'' ! (n mod 10)])"
  by pat_completeness auto
termination
  by (relation "measure id") auto

declare string_of_nat.simps [simp del]

definition string_of_int :: "int \<Rightarrow> string" where
  "string_of_int i = (if i < 0 then CHR ''-'' # string_of_nat (nat (- i)) else string_of_nat (nat i))"

text \<open>\<open>s.padStart(4, '0')\<close>.\<close>

definition padStart4 :: "string \<Rightarrow> string" where
  "padStart4 s = replicate (4 - length s) CHR ''0'' @ s"

text \<open>\<open>s.toLowerCase()\<close> on ASCII letters.\<close>

definition lower_char :: "char \<Rightarrow> char" where
  "lower_char c =
     (case map_of (zip ''ABCDEFGHIJKLMNOPQRSTUVWXYZ'' ''abcdefghijklmnopqrstuvwxyz'') c of
        Some l \<Rightarrow> l
      | None \<Rightarrow> c)"

definition toLowerCase :: "string \<Rightarrow> string" where
  "toLowerCase s = map lower_char s"

text \<open>\<open>s.replace(' ', '.')\<close>: the first blank only.\<close>

fun replace_blank :: "string \<Rightarrow> string" where
  "replace_blank [] = []"
| "replace_blank (c # cs) = (if c = CHR '' '' then CHR ''.'' # cs else c # replace_blank cs)"

text \<open>
  A number that a division returns. The integers of the model (lengths, counts, sums of
  waiting times) are held exactly by a double. A quotient is a double as well: \<open>NaN\<close> for
  \<open>0 / 0\<close>, an infinity for another division by zero, else the rational that IEEE 754
  rounding (to nearest, ties to even, with subnormals and overflow) makes of the exact
  quotient.
\<close>

datatype number = NaN | Infinity | NegInfinity | Finite rat

text \<open>The number of binary digits of a natural number.\<close>

function bit_length :: "nat \<Rightarrow> nat" where
  "bit_length n = (if n = 0 then 0 else Suc (bit_length (n div 2)))"
  by pat_completeness auto
termination
  by (relation "measure id") auto

declare bit_length.simps [simp del]

text \<open>The binary exponent \<open>e\<close> of a positive rational \<open>a\<close>: \<open>2 ^ e \<le> a < 2 ^ (e + 1)\<close>.\<close>

definition exponent :: "rat \<Rightarrow> int" where
  "exponent a =
     (if 1 \<le> a then int (bit_length (nat \<lfloor>a\<rfloor>)) - 1
      else - int (bit_length (nat \<lceil>1 / a\<rceil> - 1)))"

definition pow2 :: "int \<Rightarrow> rat" where
  "pow2 e = (if 0 \<le> e then 2 ^ nat e else 1 / 2 ^ nat (- e))"

definition round_half_even :: "rat \<Rightarrow> int" where
  "round_half_even s =
     (let f = \<lfloor>s\<rfloor>; r = s - rat_of_int f
      in if r < 1 / 2 then f else if 1 / 2 < r then f + 1 else if even f then f else f + 1)"

text \<open>The double nearest to a rational: 53 significant bits, exponents from \<open>-1022\<close>.\<close>

definition to_double :: "rat \<Rightarrow> number" where
  "to_double q =
     (if q = 0 then Finite 0
      else (let a = \<bar>q\<bar>;
                e = max (exponent a) (- 1022);
                m = round_half_even (a * pow2 (52 - e));
                d = rat_of_int m * pow2 (e - 52)
            in if 2 ^ 1024 \<le> d then (if 0 < q then Infinity else NegInfinity)
               else Finite (if 0 < q then d else - d)))"

text \<open>\<open>a / b\<close> for an integer \<open>a\<close> and a length \<open>b\<close>.\<close>

definition js_divide :: "int \<Rightarrow> nat \<Rightarrow> number" where
  "js_divide a b =
     (if b = 0 then (if a = 0 then NaN else if 0 < a then Infinity else NegInfinity)
      else to_double (rat_of_int a / rat_of_nat b))"

section \<open>The active-call registry: a JavaScript Map\<close>

text \<open>
  \<open>activeCallsMap\<close> is a \<open>Map\<close>: its entries are kept in insertion order, \<open>set\<close> on a
  key that is present replaces the value in place, and \<open>delete\<close> removes the entry of a key.
\<close>

fun map_set :: "'k \<Rightarrow> 'v \<Rightarrow> ('k \<times> 'v) list \<Rightarrow> ('k \<times> 'v) list" where
  "map_set k v [] = [(k, v)]"
| "map_set k v ((k', v') # m) = (if k' = k then (k, v) # m else (k', v') # map_set k v m)"

fun map_delete :: "'k \<Rightarrow> ('k \<times> 'v) list \<Rightarrow> ('k \<times> 'v) list" where
  "map_delete k [] = []"
| "map_delete k ((k', v') # m) = (if k' = k then m else (k', v') # map_delete k m)"

text \<open>The payload of a \<open>call.started\<close> or \<open>call.ended\<close> event of the connector.\<close>

record call_data =
  cd_uniqueid :: "string option"
  cd_callerid :: "string option"
  cd_callername :: "string option"
  cd_extension :: "string option"
  cd_direction :: "string option"
  cd_queueName :: "string option"
  cd_queueId :: "string option"
  cd_disposition :: "string option"

text \<open>The \<open>callInfo\<close> object that \<open>handleCallStarted\<close> stores in the registry.\<close>

record call_info =
  ci_id :: string
  ci_uniqueid :: "string option"
  ci_phoneNumber :: string
  ci_callerName :: "string option"
  ci_extension :: "string option"
  ci_direction :: string
  ci_startTime :: int
  ci_duration :: int
  ci_queueName :: string
  ci_queueId :: string

text \<open>The payload of the \<open>call:ended\<close> broadcast: the removed call, \<open>endTime\<close>, \<open>disposition\<close>.\<close>

record ended_call =
  ec_call :: call_info
  ec_endTime :: int
  ec_disposition :: string

type_synonym registry = "(string \<times> call_info) list"


section \<open>Agents, queues, calls, statistics and alerts\<close>

text \<open>The \<open>currentCall\<close> summary of an agent.\<close>

record current_call =
  cc_status :: string
  cc_phoneNumber :: string
  cc_callerName :: "string option"
  cc_direction :: string
  cc_duration :: int
  cc_queueName :: "string option"
  cc_queueId :: "string option"

text \<open>An agent in dashboard format, as \<open>getAgents\<close> and \<open>getMockAgents\<close> build it.\<close>

record agent =
  ag_id :: "string option"
  ag_name :: string
  ag_email :: string
  ag_status :: string
  ag_statusReason :: string
  ag_extension :: "string option"
  ag_department :: string
  ag_departmentId :: string
  ag_departments :: "string list"
  ag_currentCall :: "current_call option"
  ag_lastStatusChange :: int
  ag_deviceState :: string
  ag_channelState :: string

text \<open>
  A queue in dashboard format. The properties that \<open>getQueues\<close> adds and that the objects
  of \<open>getMockQueues\<close> do not have are optional.
\<close>

record queue =
  q_id :: "string option"
  q_name :: string
  q_extension :: "string option"
  q_waitingCalls :: int
  q_longestWait :: int
  q_longestWaitTime :: "int option"
  q_averageWait :: int
  q_avgWaitTime :: "int option"
  q_totalCalls :: int
  q_answeredCalls :: int
  q_callsAnswered :: "int option"
  q_abandonedCalls :: int
  q_callsAbandoned :: "int option"
  q_serviceLevel :: rat
  q_agents :: int
  q_agentsAvailable :: int
  q_agentsOnCall :: int
  q_agentsBusy :: "int option"
  q_agentsPaused :: "int option"
  q_status :: string
  q_strategy :: string
  q_timeout :: int
  q_retry :: int
  q_wrapuptime :: "int option"

text \<open>An active call in dashboard format (\<open>status\<close> is absent from the synthetic calls).\<close>

record call =
  c_id :: "string option"
  c_uniqueid :: "string option"
  c_channel :: "string option"
  c_direction :: string
  c_from :: string
  c_fromName :: "string option"
  c_to :: string
  c_toName :: "string option"
  c_agentId :: "string option"
  c_agentName :: string
  c_agentExtension :: "string option"
  c_duration :: int
  c_state :: string
  c_status :: "string option"
  c_startTime :: int
  c_queueName :: string
  c_queueId :: string
  c_bridgedChannel :: "string option"
  c_context :: string
  c_priority :: string
  c_application :: "string option"

record agent_counts =
  ac_total :: nat
  ac_available :: nat
  ac_busy :: nat
  ac_offline :: nat
  ac_away :: nat
  ac_paused :: nat

record call_counts =
  cn_active :: nat
  cn_waiting :: int
  cn_answered :: int
  cn_abandoned :: int

record queue_totals =
  qt_total :: nat
  qt_averageWaitTime :: number
  qt_longestWaitTime :: int

record stats =
  st_agents :: agent_counts
  st_calls :: call_counts
  st_queues :: queue_totals
  st_timestamp :: int

text \<open>An alert; \<open>queueId\<close> is present on the two queue alerts only.\<close>

record alert =
  al_type :: string
  al_title :: string
  al_message :: string
  al_queueId :: "string option"
  al_timestamp :: int

text \<open>The payload of an \<open>agent.status\<close> event.\<close>

record agent_data =
  as_extension :: "string option"
  as_status :: "string option"

text \<open>What \<open>io.emit\<close> sends to the subscribers: the channel and its payload.\<close>

datatype event =
    CallStarted call_info
  | CallEnded ended_call
  | AgentStatus agent_data
  | AgentUpdated agent
  | DashboardAgents "agent list"
  | DashboardQueues "queue list"
  | DashboardCalls "call list"
  | DashboardStats stats
  | DashboardAlerts "alert list"

section \<open>WebSocketHandler\<close>

text \<open>
  The mutable state of the handler: the registry and \<open>lastAlertCheck\<close>. The constructor
  starts with the registry it is given and sets \<open>lastAlertCheck\<close> to the current time.
\<close>

record handler =
  activeCallsMap :: registry
  lastAlertCheck :: int

definition constructor :: "registry \<Rightarrow> int \<Rightarrow> handler" where
  "constructor m now = \<lparr>activeCallsMap = m, lastAlertCheck = now\<rparr>"

text \<open>
  \<open>handleCallStarted\<close>, at time \<open>now\<close>: the new state, the broadcasts, and the extension
  for which \<open>broadcastCallUpdate\<close> is started (if any).
\<close>

definition callInfo :: "int \<Rightarrow> call_data \<Rightarrow> call_info" where
  "callInfo now callData =
     \<lparr>ci_id = or_str (cd_uniqueid callData) (''call_'' @ string_of_int now),
      ci_uniqueid = cd_uniqueid callData,
      ci_phoneNumber = or_str (cd_callerid callData) ''Unknown'',
      ci_callerName = or_null (cd_callername callData),
      ci_extension = cd_extension callData,
      ci_direction = or_str (cd_direction callData) ''unknown'',
      ci_startTime = now,
      ci_duration = 0,
      ci_queueName = or_str (cd_queueName callData) ''Direct Call'',
      ci_queueId = or_str (cd_queueId callData) ''direct''\<rparr>"

definition handleCallStarted :: "int \<Rightarrow> call_data \<Rightarrow> handler \<Rightarrow> handler \<times> event list \<times> string option" where
  "handleCallStarted now callData h =
     (let ci = callInfo now callData
      in (h\<lparr>activeCallsMap := map_set (ci_id ci) ci (activeCallsMap h)\<rparr>,
          [CallStarted ci],
          if truthy (cd_extension callData) then cd_extension callData else None))"

text \<open>The loop of \<open>handleCallEnded\<close>: the first entry, in insertion order, that matches.\<close>

fun find_call :: "string option \<Rightarrow> registry \<Rightarrow> (string \<times> call_info) option" where
  "find_call u [] = None"
| "find_call u ((callId, c) # m) =
     (if ci_uniqueid c = u \<or> Some (ci_id c) = u then Some (callId, c) else find_call u m)"

definition handleCallEnded :: "int \<Rightarrow> call_data \<Rightarrow> handler \<Rightarrow> handler \<times> event list \<times> string option" where
  "handleCallEnded now callData h =
     (case find_call (cd_uniqueid callData) (activeCallsMap h) of
        None \<Rightarrow> (h, [], None)
      | Some (callId, c) \<Rightarrow>
          (let removedCall = c\<lparr>ci_duration := (now - ci_startTime c) div 1000\<rparr>
           in (h\<lparr>activeCallsMap := map_delete callId (activeCallsMap h)\<rparr>,
               [CallEnded \<lparr>ec_call = removedCall, ec_endTime = now,
                           ec_disposition = or_str (cd_disposition callData) ''ANSWERED''\<rparr>],
               if truthy (ci_extension removedCall) then ci_extension removedCall else None)))"

definition handleAgentStatus :: "agent_data \<Rightarrow> handler \<Rightarrow> handler \<times> event list" where
  "handleAgentStatus agentData h = (h, [AgentStatus agentData])"

text \<open>\<open>broadcastCallUpdate\<close>, given the agents that \<open>getAgents\<close> returned.\<close>

definition broadcastCallUpdate :: "agent list \<Rightarrow> string \<Rightarrow> event list" where
  "broadcastCallUpdate agents extension =
     (case find (\<lambda>a. ag_extension a = Some extension) agents of
        None \<Rightarrow> []
      | Some a \<Rightarrow> [AgentUpdated a])"

text \<open>\<open>getActiveCallForUser\<close>: the first match, with its duration refreshed in the registry.\<close>

fun getActiveCallForUser :: "int \<Rightarrow> string option \<Rightarrow> registry \<Rightarrow> registry \<times> call_info option" where
  "getActiveCallForUser now userId [] = ([], None)"
| "getActiveCallForUser now userId ((k, c) # m) =
     (if ci_extension c = userId \<or> Some (ci_id c) = userId
      then (let c' = c\<lparr>ci_duration := (now - ci_startTime c) div 1000\<rparr> in ((k, c') # m, Some c'))
      else (let (m', r) = getActiveCallForUser now userId m in ((k, c) # m', r)))"

text \<open>\<open>updateCallDurations\<close>: every registry entry gets its duration at \<open>now\<close>.\<close>

definition updateCallDurations :: "int \<Rightarrow> handler \<Rightarrow> handler" where
  "updateCallDurations now h =
     h\<lparr>activeCallsMap :=
         map (\<lambda>(k, c). (k, c\<lparr>ci_duration := (now - ci_startTime c) div 1000\<rparr>)) (activeCallsMap h)\<rparr>"

section \<open>Invariant of the registry\<close>

text \<open>
  \<open>has_key\<close> is \<open>Map.prototype.has\<close>. A registry that the handlers have built from the empty
  \<open>Map\<close> has one entry per key, the key of an entry is the \<open>id\<close> of its call, and a
  call that carries a \<open>uniqueid\<close> has it as its \<open>id\<close>.
\<close>


fun has_key :: "'k \<Rightarrow> ('k \<times> 'v) list \<Rightarrow> bool" where
  "has_key k [] = False"
| "has_key k ((k', v) # m) = (k' = k \<or> has_key k m)"

fun registry_ok :: "registry \<Rightarrow> bool" where
  "registry_ok [] = True"
| "registry_ok ((k, c) # m) =
     (\<not> has_key k m \<and> ci_id c = k \<and> (truthy (ci_uniqueid c) \<longrightarrow> ci_uniqueid c = Some k) \<and>
      registry_ok m)"


text \<open>The payload \<open>{uniqueid: u}\<close> of the examples.\<close>

definition payload :: "string \<Rightarrow> call_data" where
  "payload u =
     \<lparr>cd_uniqueid = Some u, cd_callerid = None, cd_callername = None, cd_extension = None,
      cd_direction = None, cd_queueName = None, cd_queueId = None, cd_disposition = None\<rparr>"

section \<open>FreePBXService and the alert rules\<close>

text \<open>
  The fields of the service that the handler reads. The constructor takes the connector
  URL from its argument, else from the environment, else \<open>http://localhost:8080\<close>, and
  switches to synthetic data when no connector is configured.
\<close>

record service =
  connectorUrl :: string
  useMockData :: bool
  wsHandler :: bool

definition FreePBXService :: "string option \<Rightarrow> string option \<Rightarrow> service" where
  "FreePBXService url env_url =
     (let u = or_str (or_opt url env_url) ''http://localhost:8080''
      in \<lparr>connectorUrl = u, useMockData = (u = [] \<or> u = ''http://localhost:8080''),
          wsHandler = False\<rparr>)"

text \<open>The body of \<open>queues.forEach\<close> in \<open>checkAndEmitAlerts\<close>: the alerts of one queue.\<close>

definition queueAlerts :: "int \<Rightarrow> queue \<Rightarrow> alert list" where
  "queueAlerts now queue =
     (if q_longestWait queue > 300
      then [\<lparr>al_type = ''warning'', al_title = ''Long Wait Time'',
             al_message = ''Queue '' @ [CHR 0x22] @ q_name queue @ [CHR 0x22] @ '' has calls waiting ''
                          @ string_of_int (q_longestWait queue div 60) @ '' minutes'',
             al_queueId = q_id queue, al_timestamp = now\<rparr>]
      else []) @
     (if q_waitingCalls queue > 10
      then [\<lparr>al_type = ''warning'', al_title = ''High Queue Volume'',
             al_message = ''Queue '' @ [CHR 0x22] @ q_name queue @ [CHR 0x22] @ '' has ''
                          @ string_of_int (q_waitingCalls queue) @ '' waiting calls'',
             al_queueId = q_id queue, al_timestamp = now\<rparr>]
      else [])"

text \<open>
  The availability rule compares \<open>availableAgents < totalAgents * 0.2\<close>. The product of a
  list length and the double \<open>0.2\<close> rounds to the exact fifth when the length is a
  multiple of five, so the comparison is the one of the exact rationals.
\<close>

definition availabilityAlerts :: "int \<Rightarrow> agent list \<Rightarrow> alert list" where
  "availabilityAlerts now agents =
     (let totalAgents = length agents;
          availableAgents = length (filter (\<lambda>a. ag_status a = ''available'') agents)
      in if totalAgents > 0 \<and> rat_of_nat availableAgents < rat_of_nat totalAgents * (2 / 10)
         then [\<lparr>al_type = ''error'', al_title = ''Low Agent Availability'',
                al_message = ''Only '' @ string_of_nat availableAgents @ '' of ''
                             @ string_of_nat totalAgents @ '' agents are available'',
                al_queueId = None, al_timestamp = now\<rparr>]
         else [])"

definition connectivityAlerts :: "service \<Rightarrow> int \<Rightarrow> alert list" where
  "connectivityAlerts svc now =
     (if connectorUrl svc = [] \<or> useMockData svc
      then [\<lparr>al_type = ''error'', al_title = ''Connector Offline'',
             al_message = ''FreePBX connector is not responding - showing demo data'',
             al_queueId = None, al_timestamp = now\<rparr>]
      else [])"

text \<open>\<open>checkAndEmitAlerts\<close> at time \<open>now\<close>: the new state and what it emits.\<close>

definition checkAndEmitAlerts ::
    "service \<Rightarrow> int \<Rightarrow> queue list \<Rightarrow> agent list \<Rightarrow> handler \<Rightarrow> handler \<times> event list" where
  "checkAndEmitAlerts svc now queues agents h =
     (if now - lastAlertCheck h < 30000 then (h, [])
      else (let alerts = concat (map (queueAlerts now) queues) @ availabilityAlerts now agents
                         @ connectivityAlerts svc now
            in (h\<lparr>lastAlertCheck := now\<rparr>,
                if length alerts > 0 then [DashboardAlerts alerts] else [])))"

text \<open>The alerts among the broadcasts of one call.\<close>

fun emitted_alerts :: "event list \<Rightarrow> alert list" where
  "emitted_alerts [] = []"
| "emitted_alerts (DashboardAlerts as # evs) = as @ emitted_alerts evs"
| "emitted_alerts (ev # evs) = emitted_alerts evs"

text \<open>
  A caller that invokes \<open>checkAndEmitAlerts\<close> once per element of a list (the time of the
  invocation and its arguments), and what each invocation emitted.
\<close>

fun evaluations ::
    "service \<Rightarrow> (int \<times> queue list \<times> agent list) list \<Rightarrow> handler \<Rightarrow> (int \<times> event list) list" where
  "evaluations svc [] h = []"
| "evaluations svc ((now, queues, agents) # rest) h =
     (let (h', evs) = checkAndEmitAlerts svc now queues agents h
      in (now, evs) # evaluations svc rest h')"

text \<open>A queue of the connector with the given waiting figures and nothing else set.\<close>

definition plain_queue :: "int \<Rightarrow> int \<Rightarrow> queue" where
  "plain_queue waiting longest =
     \<lparr>q_id = Some ''7001'', q_name = ''Queue 7001'', q_extension = Some ''7001'',
      q_waitingCalls = waiting, q_longestWait = longest, q_longestWaitTime = Some longest,
      q_averageWait = 0, q_avgWaitTime = Some 0, q_totalCalls = 0, q_answeredCalls = 0,
      q_callsAnswered = Some 0, q_abandonedCalls = 0, q_callsAbandoned = Some 0,
      q_serviceLevel = 0, q_agents = 0, q_agentsAvailable = 0, q_agentsOnCall = 0,
      q_agentsBusy = Some 0, q_agentsPaused = Some 0, q_status = ''open'',
      q_strategy = ''ringall'', q_timeout = 15, q_retry = 5, q_wrapuptime = Some 0\<rparr>"

section \<open>Upstream records and responses\<close>

text \<open>
  What the connector sends: every property may be absent. A request either fails (network
  failure, time-out, a status other than 2xx: \<open>axios\<close> throws) or succeeds with a body,
  which may itself be missing.
\<close>

record current_call_dto =
  ccd_phoneNumber :: "string option"
  ccd_callerName :: "string option"
  ccd_direction :: "string option"
  ccd_duration :: "int option"
  ccd_queueName :: "string option"
  ccd_queueId :: "string option"

record agent_dto =
  ad_id :: "string option"
  ad_extension :: "string option"
  ad_name :: "string option"
  ad_email :: "string option"
  ad_status :: "string option"
  ad_statusReason :: "string option"
  ad_department :: "string option"
  ad_departmentId :: "string option"
  ad_departments :: "string list option"
  ad_currentCall :: "current_call_dto option"
  ad_lastStatusChange :: "int option"
  ad_deviceState :: "string option"
  ad_channelState :: "string option"

record queue_dto =
  qd_id :: "string option"
  qd_extension :: "string option"
  qd_name :: "string option"
  qd_waitingCalls :: "int option"
  qd_longestWait :: "int option"
  qd_averageWait :: "int option"
  qd_totalCalls :: "int option"
  qd_answeredCalls :: "int option"
  qd_abandonedCalls :: "int option"
  qd_serviceLevel :: "rat option"
  qd_totalAgents :: "int option"
  qd_agentsAvailable :: "int option"
  qd_agentsOnCall :: "int option"
  qd_agentsBusy :: "int option"
  qd_agentsPaused :: "int option"
  qd_status :: "string option"
  qd_strategy :: "string option"
  qd_timeout :: "int option"
  qd_retry :: "int option"
  qd_wrapuptime :: "int option"

record call_dto =
  kd_id :: "string option"
  kd_uniqueid :: "string option"
  kd_channel :: "string option"
  kd_direction :: "string option"
  kd_callerid :: "string option"
  kd_from :: "string option"
  kd_callerName :: "string option"
  kd_destination :: "string option"
  kd_to :: "string option"
  kd_agentId :: "string option"
  kd_extension :: "string option"
  kd_agentName :: "string option"
  kd_duration :: "int option"
  kd_state :: "string option"
  kd_status :: "string option"
  kd_startTime :: "int option"
  kd_queueName :: "string option"
  kd_queueId :: "string option"
  kd_bridgedChannel :: "string option"
  kd_context :: "string option"
  kd_priority :: "string option"
  kd_application :: "string option"

datatype 'a response = Failed | Ok "'a list option"

text \<open>\<open>response.data || []\<close>.\<close>

definition data_or_empty :: "'a list option \<Rightarrow> 'a list" where
  "data_or_empty d = (case d of None \<Rightarrow> [] | Some xs \<Rightarrow> xs)"

section \<open>Synthetic data\<close>

text \<open>
  \<open>Math.random()\<close> returns a number in \<open>[0, 1)\<close>, a new one at every call. The numbers drawn
  are a parameter of the model, a sequence \<open>rnd\<close>; the \<open>k\<close>-th call reads \<open>rnd k\<close> through
  \<open>frac\<close>, so that it lies in \<open>[0, 1)\<close> whatever the sequence is. \<open>Date.now()\<close> is one
  instant \<open>now\<close> for the whole of one call of a method.
\<close>

type_synonym random = "nat \<Rightarrow> rat"

definition Math_random :: "random \<Rightarrow> nat \<Rightarrow> rat" where
  "Math_random rnd k = frac (rnd k)"

text \<open>\<open>xs[Math.floor(r * xs.length)]\<close>.\<close>

definition pick :: "'a list \<Rightarrow> rat \<Rightarrow> 'a" where
  "pick xs r = xs ! nat \<lfloor>r * rat_of_nat (length xs)\<rfloor>"

text \<open>The time value of \<open>new Date(x)\<close>: \<open>x\<close> truncated to an integer.\<close>

definition time_clip :: "rat \<Rightarrow> int" where
  "time_clip x = (if 0 \<le> x then \<lfloor>x\<rfloor> else \<lceil>x\<rceil>)"

definition statuses :: "string list" where
  "statuses = [''available'', ''busy'', ''away'', ''offline'']"

definition departments :: "string list" where
  "departments = [''Sales Queue'', ''Support Queue'', ''Technical Queue'', ''General Queue'']"

definition names :: "string list" where
  "names = [''John Smith'', ''Sarah Johnson'', ''Mike Davis'', ''Emily Brown'',
            ''David Wilson'', ''Lisa Anderson'', ''Tom Martinez'', ''Jessica Taylor'',
            ''Chris Garcia'', ''Amanda White'', ''Kevin Jones'', ''Rachel Green'']"

text \<open>
  The callback of \<open>names.map\<close> in \<open>getMockAgents\<close>, for the name at index \<open>i\<close>, when \<open>k\<close>
  numbers have been drawn: the agent, and how many numbers have been drawn after it.
\<close>

definition mockAgent :: "int \<Rightarrow> random \<Rightarrow> nat \<Rightarrow> string \<Rightarrow> nat \<Rightarrow> agent \<times> nat" where
  "mockAgent now rnd i name k =
     (let extension = string_of_nat (1000 + i);
          status = pick statuses (Math_random rnd k);
          department = departments ! (i mod length departments);
          (currentCall, k') =
             (if status = ''busy''
              then (if Math_random rnd (k + 1) > 7 / 10
                    then (Some \<lparr>cc_status = ''active'',
                                cc_phoneNumber = ''+1555'' @ string_of_int
                                   \<lfloor>Math_random rnd (k + 2) * 9000000 + 1000000\<rfloor>,
                                cc_callerName = Some (pick [''Acme Corp'', ''Tech Solutions'',
                                   ''Global Inc'', ''Smith & Associates''] (Math_random rnd (k + 3))),
                                cc_direction = (if Math_random rnd (k + 4) > 5 / 10
                                                then ''inbound'' else ''outbound''),
                                cc_duration = \<lfloor>Math_random rnd (k + 5) * 600\<rfloor>,
                                cc_queueName = Some department,
                                cc_queueId = Some (''queue_'' @ string_of_nat (i mod 4 + 1))\<rparr>,
                          k + 6)
                    else (None, k + 2))
              else (None, k + 1))
      in (\<lparr>ag_id = Some (''agent_'' @ string_of_nat (i + 1)),
           ag_name = name,
           ag_email = replace_blank (toLowerCase name) @ ''@company.com'',
           ag_status = status,
           ag_statusReason = (if status = ''away'' then ''Break'' else ''''),
           ag_extension = Some extension,
           ag_department = department,
           ag_departmentId = ''queue_'' @ string_of_nat (i mod 4 + 1),
           ag_departments = [''queue_'' @ string_of_nat (i mod 4 + 1)],
           ag_currentCall = currentCall,
           ag_lastStatusChange = time_clip (rat_of_int now - Math_random rnd k' * 3600000),
           ag_deviceState = ''NOT_INUSE'',
           ag_channelState = ''Available''\<rparr>,
          k' + 1))"

fun mockAgents_from :: "int \<Rightarrow> random \<Rightarrow> nat \<Rightarrow> string list \<Rightarrow> nat \<Rightarrow> agent list" where
  "mockAgents_from now rnd i [] k = []"
| "mockAgents_from now rnd i (name # rest) k =
     (let (a, k') = mockAgent now rnd i name k in a # mockAgents_from now rnd (Suc i) rest k')"

definition getMockAgents :: "int \<Rightarrow> random \<Rightarrow> agent list" where
  "getMockAgents now rnd = mockAgents_from now rnd 0 names 0"

text \<open>One object of \<open>getMockQueues\<close>; the three drawn figures are given.\<close>

definition mockQueue ::
    "string \<Rightarrow> string \<Rightarrow> string \<Rightarrow> int \<Rightarrow> int \<Rightarrow> int \<Rightarrow> int \<Rightarrow> int \<Rightarrow> int \<Rightarrow> rat \<Rightarrow> int \<Rightarrow> int \<Rightarrow> int
       \<Rightarrow> string \<Rightarrow> int \<Rightarrow> int \<Rightarrow> queue" where
  "mockQueue ident name ext waitingCalls longestWait averageWait totalCalls answeredCalls
       abandonedCalls serviceLevel agents agentsAvailable agentsOnCall strategy timeout retry =
     \<lparr>q_id = Some ident, q_name = name, q_extension = Some ext,
      q_waitingCalls = waitingCalls, q_longestWait = longestWait, q_longestWaitTime = None,
      q_averageWait = averageWait, q_avgWaitTime = None, q_totalCalls = totalCalls,
      q_answeredCalls = answeredCalls, q_callsAnswered = None,
      q_abandonedCalls = abandonedCalls, q_callsAbandoned = None,
      q_serviceLevel = serviceLevel, q_agents = agents,
      q_agentsAvailable = agentsAvailable, q_agentsOnCall = agentsOnCall,
      q_agentsBusy = None, q_agentsPaused = None, q_status = ''open'',
      q_strategy = strategy, q_timeout = timeout, q_retry = retry, q_wrapuptime = None\<rparr>"

definition getMockQueues :: "random \<Rightarrow> queue list" where
  "getMockQueues rnd =
     [mockQueue ''queue_1'' ''Sales Queue'' ''7001''
        \<lfloor>Math_random rnd 0 * 5\<rfloor> \<lfloor>Math_random rnd 1 * 300\<rfloor> \<lfloor>Math_random rnd 2 * 120\<rfloor>
        150 142 8 (947 / 10) 8 5 3 ''rrmemory'' 15 5,
      mockQueue ''queue_2'' ''Support Queue'' ''7002''
        \<lfloor>Math_random rnd 3 * 8\<rfloor> \<lfloor>Math_random rnd 4 * 400\<rfloor> \<lfloor>Math_random rnd 5 * 90\<rfloor>
        230 220 10 (957 / 10) 12 7 5 ''linear'' 20 3,
      mockQueue ''queue_3'' ''Technical Queue'' ''7003''
        \<lfloor>Math_random rnd 6 * 3\<rfloor> \<lfloor>Math_random rnd 7 * 200\<rfloor> \<lfloor>Math_random rnd 8 * 60\<rfloor>
        85 82 3 (965 / 10) 6 4 2 ''ringall'' 30 2,
      mockQueue ''queue_4'' ''General Queue'' ''7000''
        \<lfloor>Math_random rnd 9 * 10\<rfloor> \<lfloor>Math_random rnd 10 * 600\<rfloor> \<lfloor>Math_random rnd 11 * 180\<rfloor>
        320 305 15 (953 / 10) 15 8 7 ''rrmemory'' 25 4]"

definition directions :: "string list" where
  "directions = [''inbound'', ''outbound'', ''internal'']"

definition callerNames :: "string list" where
  "callerNames = [''Acme Corporation'', ''Tech Solutions Inc'', ''Global Enterprises'',
                  ''Smith & Associates'', ''Johnson LLC'', ''Anderson Partners'',
                  ''Wilson Industries'', ''Davis Group'', ''Brown Holdings'']"

text \<open>The \<open>{id, name}\<close> pairs of \<open>getMockCalls\<close>.\<close>

definition mockCallQueues :: "(string \<times> string) list" where
  "mockCallQueues = [(''queue_1'', ''Sales Queue''), (''queue_2'', ''Support Queue''),
                     (''queue_3'', ''Technical Queue''), (''queue_4'', ''General Queue'')]"

text \<open>\<open>id.replace('queue_', '700')\<close> on an identifier that starts with \<open>queue_\<close>.\<close>

definition replace_queue :: "string \<Rightarrow> string" where
  "replace_queue s = (if take 6 s = ''queue_'' then ''700'' @ drop 6 s else s)"

text \<open>
  One iteration of the loop of \<open>getMockCalls\<close>, for index \<open>i\<close>, when \<open>k\<close> numbers have been
  drawn. Every iteration draws eight numbers: three for direction, queue and extension, two
  for the counterpart (number and name, or the two numbers of an internal call), three for
  agent name, duration and start time.
\<close>

definition mockCall :: "int \<Rightarrow> random \<Rightarrow> nat \<Rightarrow> nat \<Rightarrow> call" where
  "mockCall now rnd i k =
     (let direction = pick directions (Math_random rnd k);
          queue = pick mockCallQueues (Math_random rnd (k + 1));
          agentExt = 1000 + \<lfloor>Math_random rnd (k + 2) * 12\<rfloor>;
          number1 = ''+1555'' @ string_of_int \<lfloor>Math_random rnd (k + 3) * 9000000 + 1000000\<rfloor>;
          number2 = ''+1555'' @ string_of_int \<lfloor>Math_random rnd (k + 4) * 9000000 + 1000000\<rfloor>;
          suffix = ''-0000'' @ padStart4 (string_of_nat i)
      in \<lparr>c_id = Some (''call_'' @ string_of_int now @ ''_'' @ string_of_nat i),
          c_uniqueid = Some (string_of_int now @ ''.'' @ string_of_nat i),
          c_channel = Some (''SIP/'' @ string_of_int agentExt @ suffix),
          c_direction = direction,
          c_from = (if direction = ''outbound'' then string_of_int agentExt else number1),
          c_fromName = (if direction = ''inbound''
                        then Some (pick callerNames (Math_random rnd (k + 4))) else None),
          c_to = (if direction = ''inbound'' then string_of_int agentExt
                  else if direction = ''outbound'' then number1 else number2),
          c_toName = (if direction = ''outbound''
                      then Some (pick callerNames (Math_random rnd (k + 4))) else None),
          c_agentId = Some (''agent_'' @ string_of_int (agentExt - 999)),
          c_agentName = pick [''John Smith'', ''Sarah Johnson'', ''Mike Davis'', ''Emily Brown'']
                          (Math_random rnd (k + 5)),
          c_agentExtension = Some (string_of_int agentExt),
          c_duration = \<lfloor>Math_random rnd (k + 6) * 600\<rfloor>,
          c_state = ''active'',
          c_status = None,
          c_startTime = time_clip (rat_of_int now - Math_random rnd (k + 7) * 600000),
          c_queueName = (if direction = ''internal'' then ''Direct Call'' else snd queue),
          c_queueId = (if direction = ''internal'' then ''direct'' else fst queue),
          c_bridgedChannel = (if direction \<noteq> ''internal''
                              then Some (''Queue/'' @ replace_queue (fst queue) @ suffix) else None),
          c_context = ''from-internal'',
          c_priority = ''1'',
          c_application = Some (if direction = ''internal'' then ''Dial'' else ''Queue'')\<rparr>)"

definition getMockCalls :: "int \<Rightarrow> random \<Rightarrow> call list" where
  "getMockCalls now rnd =
     (let activeCount = nat (\<lfloor>Math_random rnd 0 * 8\<rfloor> + 2)
      in map (\<lambda>i. mockCall now rnd i (1 + 8 * i)) [0..<activeCount])"
section \<open>FreePBXService: the three fetches\<close>

definition mapAsteriskStatusToStandard :: "string option \<Rightarrow> string" where
  "mapAsteriskStatusToStandard status =
     (if \<not> truthy status then ''offline''
      else (let statusLower = toLowerCase (the status)
            in if statusLower \<in> {''not_inuse'', ''available'', ''idle'', ''free''} then ''available''
               else if statusLower \<in> {''inuse'', ''busy'', ''ringing'', ''ringinuse''} then ''busy''
               else if statusLower \<in> {''unavailable'', ''paused'', ''dnd''} then ''away''
               else ''offline''))"

text \<open>
  The callback of \<open>agents.map\<close> in \<open>getAgents\<close>. \<open>getActiveCallForUser\<close> refreshes a duration
  in the registry, so the registry is passed through.
\<close>

definition mapAgent :: "service \<Rightarrow> int \<Rightarrow> agent_dto \<Rightarrow> registry \<Rightarrow> agent \<times> registry" where
  "mapAgent svc now agent reg =
     (let (reg', currentCall) =
            (if wsHandler svc \<and> ad_status agent = Some ''busy'' \<and> ad_currentCall agent \<noteq> None
             then (case getActiveCallForUser now (ad_id agent) reg of
                     (reg', Some callDetails) \<Rightarrow>
                       (reg', Some \<lparr>cc_status = ''active'',
                                    cc_phoneNumber = ci_phoneNumber callDetails,
                                    cc_callerName = ci_callerName callDetails,
                                    cc_direction = ci_direction callDetails,
                                    cc_duration = ci_duration callDetails,
                                    cc_queueName = or_opt (Some (ci_queueName callDetails))
                                                     (ad_department agent),
                                    cc_queueId = or_opt (Some (ci_queueId callDetails))
                                                   (ad_departmentId agent)\<rparr>)
                   | (reg', None) \<Rightarrow>
                       (reg', map_option
                          (\<lambda>cc. \<lparr>cc_status = ''active'',
                                 cc_phoneNumber = or_str (ccd_phoneNumber cc) ''Unknown'',
                                 cc_callerName = or_null (ccd_callerName cc),
                                 cc_direction = or_str (ccd_direction cc) ''unknown'',
                                 cc_duration = or_num (ccd_duration cc) 0,
                                 cc_queueName = or_opt (ccd_queueName cc) (ad_department agent),
                                 cc_queueId = or_opt (ccd_queueId cc) (ad_departmentId agent)\<rparr>)
                          (ad_currentCall agent)))
             else (reg, None))
      in (\<lparr>ag_id = or_opt (ad_id agent) (ad_extension agent),
           ag_name = or_str (ad_name agent) (''Extension '' @ tmpl (ad_extension agent)),
           ag_email = or_str (ad_email agent) (tmpl (ad_extension agent) @ ''@pbx.local''),
           ag_status = mapAsteriskStatusToStandard (ad_status agent),
           ag_statusReason = or_str (ad_statusReason agent) [],
           ag_extension = ad_extension agent,
           ag_department = or_str (ad_department agent) ''Default'',
           ag_departmentId = or_str (ad_departmentId agent) ''default'',
           ag_departments = (case ad_departments agent of
                               Some ds \<Rightarrow> ds
                             | None \<Rightarrow> [or_str (ad_departmentId agent) ''default'']),
           ag_currentCall = currentCall,
           ag_lastStatusChange = (case ad_lastStatusChange agent of Some t \<Rightarrow> t | None \<Rightarrow> now),
           ag_deviceState = or_str (ad_deviceState agent) ''UNKNOWN'',
           ag_channelState = or_str (ad_channelState agent) ''Available''\<rparr>,
          reg'))"

fun mapAgents :: "service \<Rightarrow> int \<Rightarrow> agent_dto list \<Rightarrow> registry \<Rightarrow> agent list \<times> registry" where
  "mapAgents svc now [] reg = ([], reg)"
| "mapAgents svc now (agent # rest) reg =
     (let (a, reg') = mapAgent svc now agent reg;
          (as, reg'') = mapAgents svc now rest reg'
      in (a # as, reg''))"

definition getAgents ::
    "service \<Rightarrow> int \<Rightarrow> random \<Rightarrow> agent_dto response \<Rightarrow> registry \<Rightarrow> agent list \<times> registry" where
  "getAgents svc now rnd resp reg =
     (if useMockData svc then (getMockAgents now rnd, reg)
      else (case resp of
              Failed \<Rightarrow> (getMockAgents now rnd, reg)
            | Ok d \<Rightarrow>
                (let agents = data_or_empty d
                 in if length agents = 0 then (getMockAgents now rnd, reg)
                    else mapAgents svc now agents reg)))"

definition mapQueue :: "queue_dto \<Rightarrow> queue" where
  "mapQueue queue =
     \<lparr>q_id = or_opt (qd_id queue) (qd_extension queue),
      q_name = or_str (qd_name queue) (''Queue '' @ tmpl (qd_extension queue)),
      q_extension = qd_extension queue,
      q_waitingCalls = or_num (qd_waitingCalls queue) 0,
      q_longestWait = or_num (qd_longestWait queue) 0,
      q_longestWaitTime = Some (or_num (qd_longestWait queue) 0),
      q_averageWait = or_num (qd_averageWait queue) 0,
      q_avgWaitTime = Some (or_num (qd_averageWait queue) 0),
      q_totalCalls = or_num (qd_totalCalls queue) 0,
      q_answeredCalls = or_num (qd_answeredCalls queue) 0,
      q_callsAnswered = Some (or_num (qd_answeredCalls queue) 0),
      q_abandonedCalls = or_num (qd_abandonedCalls queue) 0,
      q_callsAbandoned = Some (or_num (qd_abandonedCalls queue) 0),
      q_serviceLevel = or_num (qd_serviceLevel queue) 0,
      q_agents = or_num (qd_totalAgents queue) 0,
      q_agentsAvailable = or_num (qd_agentsAvailable queue) 0,
      q_agentsOnCall = or_num (qd_agentsOnCall queue) 0,
      q_agentsBusy = Some (or_num (qd_agentsBusy queue) 0),
      q_agentsPaused = Some (or_num (qd_agentsPaused queue) 0),
      q_status = or_str (qd_status queue) ''open'',
      q_strategy = or_str (qd_strategy queue) ''ringall'',
      q_timeout = or_num (qd_timeout queue) 15,
      q_retry = or_num (qd_retry queue) 5,
      q_wrapuptime = Some (or_num (qd_wrapuptime queue) 0)\<rparr>"

definition getQueues :: "service \<Rightarrow> random \<Rightarrow> queue_dto response \<Rightarrow> queue list" where
  "getQueues svc rnd resp =
     (if useMockData svc then getMockQueues rnd
      else (case resp of
              Failed \<Rightarrow> getMockQueues rnd
            | Ok d \<Rightarrow>
                (let queues = data_or_empty d
                 in if length queues = 0 then getMockQueues rnd
                    else map mapQueue queues)))"

definition mapCall :: "int \<Rightarrow> call_dto \<Rightarrow> call" where
  "mapCall now call =
     \<lparr>c_id = or_opt (kd_id call) (kd_uniqueid call),
      c_uniqueid = kd_uniqueid call,
      c_channel = kd_channel call,
      c_direction = or_str (kd_direction call) ''unknown'',
      c_from = or_str (or_opt (kd_callerid call) (kd_from call)) ''Unknown'',
      c_fromName = or_null (kd_callerName call),
      c_to = or_str (or_opt (kd_destination call) (kd_to call)) ''Unknown'',
      c_toName = None,
      c_agentId = or_opt (kd_agentId call) (kd_extension call),
      c_agentName = or_str (kd_agentName call) (''Extension '' @ tmpl (kd_extension call)),
      c_agentExtension = kd_extension call,
      c_duration = or_num (kd_duration call) 0,
      c_state = or_str (kd_state call) ''active'',
      c_status = Some (or_str (kd_status call) ''active''),
      c_startTime = (case kd_startTime call of Some t \<Rightarrow> t | None \<Rightarrow> now),
      c_queueName = or_str (kd_queueName call) ''Direct Call'',
      c_queueId = or_str (kd_queueId call) ''direct'',
      c_bridgedChannel = or_null (kd_bridgedChannel call),
      c_context = or_str (kd_context call) ''default'',
      c_priority = or_str (kd_priority call) ''1'',
      c_application = or_null (kd_application call)\<rparr>"

definition getActiveCalls :: "service \<Rightarrow> int \<Rightarrow> random \<Rightarrow> call_dto response \<Rightarrow> call list" where
  "getActiveCalls svc now rnd resp =
     (if useMockData svc then getMockCalls now rnd
      else (case resp of
              Failed \<Rightarrow> getMockCalls now rnd
            | Ok d \<Rightarrow> map (mapCall now) (data_or_empty d)))"

section \<open>Statistics and the polling tick\<close>

text \<open>
  The responses to the three requests of one round of fetches, and the numbers that each
  fetch draws if it falls back to synthetic data.
\<close>

record fetches =
  f_agents :: "agent_dto response"
  f_queues :: "queue_dto response"
  f_calls :: "call_dto response"
  f_rnd_agents :: random
  f_rnd_queues :: random
  f_rnd_calls :: random

text \<open>
  The body of \<open>queues.forEach\<close> in \<open>getCallCenterStats\<close> and in the route
  \<open>GET /api/queues\<close>: the counts of one queue, from the agents assigned to it.
\<close>

definition updateQueueCounts :: "agent list \<Rightarrow> queue \<Rightarrow> queue" where
  "updateQueueCounts agents queue =
     (let queueAgents = filter (\<lambda>agent.
              (case q_id queue of Some i \<Rightarrow> i \<in> set (ag_departments agent) | None \<Rightarrow> False) \<or>
              Some (ag_departmentId agent) = q_id queue \<or>
              ag_department agent = q_name queue) agents;
          q1 = (if q_agents queue = 0 then queue\<lparr>q_agents := int (length queueAgents)\<rparr> else queue);
          q2 = (if q_agentsAvailable q1 = 0
                then q1\<lparr>q_agentsAvailable :=
                          int (length (filter (\<lambda>a. ag_status a = ''available'') queueAgents))\<rparr>
                else q1);
          q3 = (if q_agentsOnCall q2 = 0
                then q2\<lparr>q_agentsOnCall :=
                          int (length (filter (\<lambda>a. ag_currentCall a \<noteq> None) queueAgents))\<rparr>
                else q2)
      in q3)"

text \<open>The \<open>reduce\<close> that counts the agents by status, and \<open>agentStatuses.s || 0\<close>.\<close>

definition agentStatuses :: "agent list \<Rightarrow> (string \<rightharpoonup> nat)" where
  "agentStatuses agents =
     foldl (\<lambda>acc agent. acc(ag_status agent \<mapsto> (case acc (ag_status agent) of None \<Rightarrow> 0 | Some n \<Rightarrow> n) + 1))
       Map.empty agents"

definition count_or_0 :: "(string \<rightharpoonup> nat) \<Rightarrow> string \<Rightarrow> nat" where
  "count_or_0 m s = (case m s of None \<Rightarrow> 0 | Some n \<Rightarrow> n)"

text \<open>The object that \<open>getCallCenterStats\<close> returns, from the three lists it has fetched.\<close>

definition callCenterStats :: "int \<Rightarrow> agent list \<Rightarrow> queue list \<Rightarrow> call list \<Rightarrow> stats" where
  "callCenterStats now agents queues calls =
     (let totalWaiting = foldl (\<lambda>sum q. sum + q_waitingCalls q) 0 queues;
          totalAnswered = foldl (\<lambda>sum q. sum + q_answeredCalls q) 0 queues;
          totalAbandoned = foldl (\<lambda>sum q. sum + q_abandonedCalls q) 0 queues
      in \<lparr>st_agents = \<lparr>ac_total = length agents,
                        ac_available = count_or_0 (agentStatuses agents) ''available'',
                        ac_busy = count_or_0 (agentStatuses agents) ''busy'',
                        ac_offline = count_or_0 (agentStatuses agents) ''offline'',
                        ac_away = count_or_0 (agentStatuses agents) ''away'',
                        ac_paused = count_or_0 (agentStatuses agents) ''paused''\<rparr>,
          st_calls = \<lparr>cn_active = length calls, cn_waiting = totalWaiting,
                       cn_answered = totalAnswered, cn_abandoned = totalAbandoned\<rparr>,
          st_queues = \<lparr>qt_total = length queues,
                        qt_averageWaitTime =
                          js_divide (foldl (\<lambda>sum q. sum + q_averageWait q) 0 queues)
                            (if length queues = 0 then 1 else length queues),
                        qt_longestWaitTime = fold max (map q_longestWait queues) 0\<rparr>,
          st_timestamp = now\<rparr>)"

definition getCallCenterStats :: "service \<Rightarrow> int \<Rightarrow> fetches \<Rightarrow> registry \<Rightarrow> stats \<times> registry" where
  "getCallCenterStats svc now f reg =
     (let (agents, reg') = getAgents svc now (f_rnd_agents f) (f_agents f) reg;
          queues = getQueues svc (f_rnd_queues f) (f_queues f);
          calls = getActiveCalls svc now (f_rnd_calls f) (f_calls f);
          queues' = map (updateQueueCounts agents) queues
      in (callCenterStats now agents queues' calls, reg'))"

text \<open>The route \<open>GET /api/queues\<close>: the queues it answers with.\<close>

definition api_queues :: "service \<Rightarrow> int \<Rightarrow> fetches \<Rightarrow> registry \<Rightarrow> queue list \<times> registry" where
  "api_queues svc now f reg =
     (let (agents, reg') = getAgents svc now (f_rnd_agents f) (f_agents f) reg;
          queues = getQueues svc (f_rnd_queues f) (f_queues f)
      in (map (updateQueueCounts agents) queues, reg'))"

text \<open>
  \<open>broadcastUpdates\<close>, one tick at time \<open>now\<close> (the one instant that every clock read of the
  tick returns): \<open>f\<close> answers the three fetches of the tick itself, \<open>g\<close> the three that
  \<open>getCallCenterStats\<close> issues on its own. A failed request is answered inside the fetch
  with synthetic data, and nothing else in the tick throws on records of these types, so
  the \<open>catch\<close> branch with its \<open>dashboard:error\<close> broadcast is not reached.
\<close>

definition broadcastUpdates ::
    "service \<Rightarrow> int \<Rightarrow> fetches \<Rightarrow> fetches \<Rightarrow> handler \<Rightarrow> handler \<times> event list" where
  "broadcastUpdates svc now f g h =
     (let (agents, reg1) = getAgents svc now (f_rnd_agents f) (f_agents f) (activeCallsMap h);
          queues = getQueues svc (f_rnd_queues f) (f_queues f);
          calls = getActiveCalls svc now (f_rnd_calls f) (f_calls f);
          (stats, reg2) = getCallCenterStats svc now g reg1;
          h1 = updateCallDurations now (h\<lparr>activeCallsMap := reg2\<rparr>);
          (h2, alerts) = checkAndEmitAlerts svc now queues agents h1
      in (h2, [DashboardAgents agents, DashboardQueues queues, DashboardCalls calls,
               DashboardStats stats] @ alerts))"

section \<open>The server's wiring and example inputs\<close>

text \<open>
  \<open>index.js\<close> constructs the service from the environment variable
  \<open>PBX_CONNECTOR_ENDPOINT\<close> and then attaches the handler to it.
\<close>

definition freepbxService :: "string option \<Rightarrow> service" where
  "freepbxService endpoint = (FreePBXService endpoint endpoint)\<lparr>wsHandler := True\<rparr>"

text \<open>The call lists and the queue lists among the broadcasts of one tick.\<close>

fun emitted_calls :: "event list \<Rightarrow> call list list" where
  "emitted_calls [] = []"
| "emitted_calls (DashboardCalls cs # evs) = cs # emitted_calls evs"
| "emitted_calls (ev # evs) = emitted_calls evs"

fun emitted_queues :: "event list \<Rightarrow> queue list list" where
  "emitted_queues [] = []"
| "emitted_queues (DashboardQueues qs # evs) = qs # emitted_queues evs"
| "emitted_queues (ev # evs) = emitted_queues evs"

text \<open>
  Records of the connector with a few properties set: an available agent of a department, a
  queue with no agent counts, and a call with its duration.
\<close>

definition agent_of :: "string \<Rightarrow> string \<Rightarrow> agent_dto" where
  "agent_of ext dept =
     \<lparr>ad_id = Some ext, ad_extension = Some ext, ad_name = None, ad_email = None,
      ad_status = Some ''NOT_INUSE'', ad_statusReason = None, ad_department = None,
      ad_departmentId = Some dept, ad_departments = None, ad_currentCall = None,
      ad_lastStatusChange = None, ad_deviceState = None, ad_channelState = None\<rparr>"

definition queue_of :: "string \<Rightarrow> string \<Rightarrow> queue_dto" where
  "queue_of ident name =
     \<lparr>qd_id = Some ident, qd_extension = None, qd_name = Some name, qd_waitingCalls = None,
      qd_longestWait = None, qd_averageWait = None, qd_totalCalls = None,
      qd_answeredCalls = None, qd_abandonedCalls = None, qd_serviceLevel = None,
      qd_totalAgents = None, qd_agentsAvailable = None, qd_agentsOnCall = None,
      qd_agentsBusy = None, qd_agentsPaused = None, qd_status = None, qd_strategy = None,
      qd_timeout = None, qd_retry = None, qd_wrapuptime = None\<rparr>"

definition call_of :: "string \<Rightarrow> int \<Rightarrow> call_dto" where
  "call_of ident duration =
     \<lparr>kd_id = Some ident, kd_uniqueid = Some ident, kd_channel = None, kd_direction = None,
      kd_callerid = None, kd_from = None, kd_callerName = None, kd_destination = None,
      kd_to = None, kd_agentId = None, kd_extension = None, kd_agentName = None,
      kd_duration = Some duration, kd_state = None, kd_status = None, kd_startTime = None,
      kd_queueName = None, kd_queueId = None, kd_bridgedChannel = None, kd_context = None,
      kd_priority = None, kd_application = None\<rparr>"

definition answers :: "agent_dto list \<Rightarrow> queue_dto list \<Rightarrow> call_dto list \<Rightarrow> fetches" where
  "answers as qs cs =
     \<lparr>f_agents = Ok (Some as), f_queues = Ok (Some qs), f_calls = Ok (Some cs),
      f_rnd_agents = (\<lambda>_. 0), f_rnd_queues = (\<lambda>_. 0), f_rnd_calls = (\<lambda>_. 0)\<rparr>"

section \<open>Properties of the registry\<close>

lemma has_key_mem: "(k, v) \<in> set m \<Longrightarrow> has_key k m"
  by (induction m) auto

lemma has_key_map_set: "has_key k' (map_set k v m) \<longleftrightarrow> k' = k \<or> has_key k' m"
  by (induction m) (auto split: if_splits)

lemma length_map_set: "has_key k m \<Longrightarrow> length (map_set k v m) = length m"
  by (induction m) auto

lemma registry_ok_map_set:
  "registry_ok m \<Longrightarrow> ci_id c = k \<Longrightarrow> (truthy (ci_uniqueid c) \<longrightarrow> ci_uniqueid c = Some k) \<Longrightarrow>
   registry_ok (map_set k c m)"
  by (induction m) (auto simp: has_key_map_set)

lemma has_key_map_delete: "has_key k' (map_delete k m) \<Longrightarrow> has_key k' m"
  by (induction m) (auto split: if_splits)

lemma registry_ok_map_delete: "registry_ok m \<Longrightarrow> registry_ok (map_delete k m)"
  by (induction m) (auto dest: has_key_map_delete)

lemma length_map_delete: "has_key k m \<Longrightarrow> Suc (length (map_delete k m)) = length m"
  by (induction m) auto

lemma set_map_delete:
  "registry_ok m \<Longrightarrow> (k, v) \<in> set m \<Longrightarrow> set (map_delete k m) = set m - {(k, v)}"
  by (induction m) (auto dest: has_key_mem split: if_splits)

lemma find_call_None:
  "find_call u m = None \<longleftrightarrow> (\<forall>(k, c) \<in> set m. ci_uniqueid c \<noteq> u \<and> Some (ci_id c) \<noteq> u)"
  by (induction m) (auto split: if_splits)

lemma find_call_map_set:
  "registry_ok m \<Longrightarrow> u \<noteq> [] \<Longrightarrow> ci_id ci = u \<Longrightarrow>
   find_call (Some u) (map_set u ci m) = Some (u, ci)"
  by (induction m) auto

lemma mem_map_set: "(k, v) \<in> set (map_set k v m)"
  by (induction m) auto

lemma filter_no_key: "\<not> has_key k m \<Longrightarrow> filter (\<lambda>e. fst e = k) m = []"
  by (induction m) auto

lemma filter_key_map_set:
  "registry_ok m \<Longrightarrow> filter (\<lambda>e. fst e = k) (map_set k v m) = [(k, v)]"
  by (induction m) (auto simp: filter_no_key)

lemma matches_key:
  "registry_ok m \<Longrightarrow> u \<noteq> [] \<Longrightarrow> (k, c) \<in> set m \<Longrightarrow>
   (ci_uniqueid c = Some u \<or> ci_id c = u) \<longleftrightarrow> k = u"
  by (induction m) auto

lemma callInfo_id: "u \<noteq> [] \<Longrightarrow> cd_uniqueid e = Some u \<Longrightarrow> ci_id (callInfo t e) = u"
  by (simp add: callInfo_def or_str_def)

lemma callInfo_ok:
  "truthy (ci_uniqueid (callInfo t e)) \<longrightarrow> ci_uniqueid (callInfo t e) = Some (ci_id (callInfo t e))"
  by (cases "cd_uniqueid e") (auto simp: callInfo_def or_str_def)

lemma registry_ok_handleCallStarted:
  "registry_ok (activeCallsMap h) \<Longrightarrow> registry_ok (activeCallsMap (fst (handleCallStarted t e h)))"
  using callInfo_ok [of t e]
  by (simp add: handleCallStarted_def Let_def registry_ok_map_set)

lemma registry_ok_handleCallEnded:
  "registry_ok (activeCallsMap h) \<Longrightarrow> registry_ok (activeCallsMap (fst (handleCallEnded t e h)))"
  by (auto simp: handleCallEnded_def Let_def registry_ok_map_delete split: option.splits)


text \<open>
  Claim C8. A \<open>call.ended\<close> event whose identifier equals neither the \<open>uniqueid\<close> nor
  the \<open>id\<close> of any registry entry does nothing: \<open>handleCallEnded\<close> has no failing
  branch, it returns the handler state as it was, emits no broadcast (so no
  \<open>call:ended\<close>), and starts no agent refresh.
\<close>

theorem handleCallEnded_unmatched:
  assumes "\<forall>(k, c) \<in> set (activeCallsMap h).
             ci_uniqueid c \<noteq> cd_uniqueid callData \<and> Some (ci_id c) \<noteq> cd_uniqueid callData"
  shows "handleCallEnded now callData h = (h, [], None)"
proof -
  from assms have "find_call (cd_uniqueid callData) (activeCallsMap h) = None"
    by (simp only: find_call_None)
  then show ?thesis
    by (simp add: handleCallEnded_def)
qed

theorem handleCallEnded_unmatched_witness:
  "handleCallEnded 2000 (payload ''42'')
     \<lparr>activeCallsMap = [(''41'', callInfo 1000 (payload ''41''))], lastAlertCheck = 0\<rparr>
   = (\<lparr>activeCallsMap = [(''41'', callInfo 1000 (payload ''41''))], lastAlertCheck = 0\<rparr>, [], None)"
proof -
  have h: "\<forall>(k, c) \<in> set (activeCallsMap
              \<lparr>activeCallsMap = [(''41'', callInfo 1000 (payload ''41''))], lastAlertCheck = 0\<rparr>).
             ci_uniqueid c \<noteq> cd_uniqueid (payload ''42'') \<and>
             Some (ci_id c) \<noteq> cd_uniqueid (payload ''42'')"
    by (simp add: callInfo_def payload_def or_str_def)
  show ?thesis
    by (rule handleCallEnded_unmatched [OF h])
qed

text \<open>
  Claim C6. On a registry built by the handlers, \<open>handleCallStarted\<close> with a non-empty
  \<open>uniqueid\<close> \<open>u\<close> (such as \<open>"42"\<close>) followed immediately, on a clock that does not
  run backwards, by \<open>handleCallEnded\<close> with the same \<open>uniqueid\<close> removes exactly one
  entry, the one just stored under \<open>u\<close>, and hands that record over in the
  \<open>call:ended\<close> broadcast with its final duration, which is not negative.
\<close>

theorem call_started_then_ended:
  assumes ok: "registry_ok (activeCallsMap h)"
    and e1: "cd_uniqueid e1 = Some u" and e2: "cd_uniqueid e2 = Some u"
    and u: "u \<noteq> []" and t: "t0 \<le> t1"
  shows "(let (h1, evs1, r1) = handleCallStarted t0 e1 h;
              (h2, evs2, r2) = handleCallEnded t1 e2 h1
          in Suc (length (activeCallsMap h2)) = length (activeCallsMap h1) \<and>
             set (activeCallsMap h2) = set (activeCallsMap h1) - {(u, callInfo t0 e1)} \<and>
             (u, callInfo t0 e1) \<in> set (activeCallsMap h1) \<and>
             evs2 = [CallEnded \<lparr>ec_call = (callInfo t0 e1)\<lparr>ci_duration := (t1 - t0) div 1000\<rparr>,
                                ec_endTime = t1,
                                ec_disposition = or_str (cd_disposition e2) ''ANSWERED''\<rparr>] \<and>
             0 \<le> (t1 - t0) div 1000)"
proof -
  let ?ci = "callInfo t0 e1"
  let ?m1 = "map_set u ?ci (activeCallsMap h)"
  have id: "ci_id ?ci = u"
    using u e1 by (rule callInfo_id)
  have ok1: "registry_ok ?m1"
    using ok id callInfo_ok [of t0 e1] by (simp add: registry_ok_map_set)
  have found: "find_call (Some u) ?m1 = Some (u, ?ci)"
    using ok u id by (rule find_call_map_set)
  have mem: "(u, ?ci) \<in> set ?m1"
    by (rule mem_map_set)
  have len: "Suc (length (map_delete u ?m1)) = length ?m1"
    by (rule length_map_delete) (simp add: has_key_map_set)
  have del: "set (map_delete u ?m1) = set ?m1 - {(u, ?ci)}"
    using ok1 mem by (rule set_map_delete)
  have start: "ci_startTime ?ci = t0"
    by (simp add: callInfo_def)
  have dur: "0 \<le> (t1 - t0) div 1000"
    using t by simp
  show ?thesis
    using found len del mem dur
    by (simp add: handleCallStarted_def handleCallEnded_def Let_def id e2 start)
qed

theorem call_started_then_ended_witness:
  "registry_ok (activeCallsMap \<lparr>activeCallsMap = [], lastAlertCheck = 0\<rparr>) \<and>
   cd_uniqueid (payload ''42'') = Some ''42'' \<and> ''42'' \<noteq> [] \<and> (1000::int) \<le> 1000 \<and>
   (let (h1, evs1, r1) = handleCallStarted 1000 (payload ''42'') \<lparr>activeCallsMap = [], lastAlertCheck = 0\<rparr>;
        (h2, evs2, r2) = handleCallEnded 1000 (payload ''42'') h1
    in Suc (length (activeCallsMap h2)) = length (activeCallsMap h1) \<and>
       set (activeCallsMap h2) = set (activeCallsMap h1) - {(''42'', callInfo 1000 (payload ''42''))} \<and>
       (''42'', callInfo 1000 (payload ''42'')) \<in> set (activeCallsMap h1) \<and>
       evs2 = [CallEnded \<lparr>ec_call = (callInfo 1000 (payload ''42''))\<lparr>ci_duration := (1000 - 1000) div 1000\<rparr>,
                          ec_endTime = 1000,
                          ec_disposition = or_str (cd_disposition (payload ''42'')) ''ANSWERED''\<rparr>] \<and>
       0 \<le> ((1000::int) - 1000) div 1000)"
proof -
  have a: "registry_ok (activeCallsMap \<lparr>activeCallsMap = [], lastAlertCheck = 0\<rparr>)"
    and b: "cd_uniqueid (payload ''42'') = Some ''42''" and c: "''42'' \<noteq> []"
    and d: "(1000::int) \<le> 1000"
    by (simp_all add: payload_def)
  from a b c d call_started_then_ended [OF a b b c d] show ?thesis
    by blast
qed

text \<open>
  Claim C9. Two \<open>call.started\<close> events with the same non-empty \<open>uniqueid\<close> \<open>u\<close>
  leave exactly one registry entry for \<open>u\<close> (by key, by \<open>id\<close> or by \<open>uniqueid\<close>):
  the second event replaces the record of the first in place, so the registry does not
  grow, and the entry carries the second event's arrival time as \<open>startTime\<close> and the
  duration 0.
\<close>

theorem call_started_twice:
  assumes ok: "registry_ok (activeCallsMap h)"
    and e1: "cd_uniqueid e1 = Some u" and e2: "cd_uniqueid e2 = Some u"
    and u: "u \<noteq> []"
  shows "(let h1 = fst (handleCallStarted t1 e1 h);
              h2 = fst (handleCallStarted t2 e2 h1)
          in filter (\<lambda>(k, c). k = u \<or> ci_id c = u \<or> ci_uniqueid c = Some u) (activeCallsMap h2)
               = [(u, callInfo t2 e2)] \<and>
             ci_startTime (callInfo t2 e2) = t2 \<and>
             ci_duration (callInfo t2 e2) = 0 \<and>
             length (activeCallsMap h2) = length (activeCallsMap h1))"
proof -
  let ?m1 = "map_set u (callInfo t1 e1) (activeCallsMap h)"
  let ?m2 = "map_set u (callInfo t2 e2) ?m1"
  have id1: "ci_id (callInfo t1 e1) = u" and id2: "ci_id (callInfo t2 e2) = u"
    using u e1 e2 by (simp_all add: callInfo_id)
  have ok1: "registry_ok ?m1"
    using ok id1 callInfo_ok [of t1 e1] by (simp add: registry_ok_map_set)
  have ok2: "registry_ok ?m2"
    using ok1 id2 callInfo_ok [of t2 e2] by (simp add: registry_ok_map_set)
  have "filter (\<lambda>(k, c). k = u \<or> ci_id c = u \<or> ci_uniqueid c = Some u) ?m2
          = filter (\<lambda>e. fst e = u) ?m2"
  proof (rule filter_cong [OF refl])
    fix e assume mem: "e \<in> set ?m2"
    obtain k c where e: "e = (k, c)"
      by (cases e)
    with mem matches_key [OF ok2 u, of k c] show "(case e of (k, c) \<Rightarrow> k = u \<or> ci_id c = u \<or> ci_uniqueid c = Some u) = (fst e = u)"
      by auto
  qed
  also have "\<dots> = [(u, callInfo t2 e2)]"
    using ok1 by (rule filter_key_map_set)
  finally have one: "filter (\<lambda>(k, c). k = u \<or> ci_id c = u \<or> ci_uniqueid c = Some u) ?m2
                       = [(u, callInfo t2 e2)]" .
  have len: "length ?m2 = length ?m1"
    by (rule length_map_set) (simp add: has_key_map_set)
  have "ci_startTime (callInfo t2 e2) = t2" "ci_duration (callInfo t2 e2) = 0"
    by (simp_all add: callInfo_def)
  with one len show ?thesis
    by (simp add: handleCallStarted_def Let_def id1 id2)
qed

theorem call_started_twice_witness:
  "registry_ok (activeCallsMap \<lparr>activeCallsMap = [], lastAlertCheck = 0\<rparr>) \<and>
   cd_uniqueid (payload ''42'') = Some ''42'' \<and> ''42'' \<noteq> [] \<and>
   (let h1 = fst (handleCallStarted 1000 (payload ''42'') \<lparr>activeCallsMap = [], lastAlertCheck = 0\<rparr>);
        h2 = fst (handleCallStarted 9000 (payload ''42'') h1)
    in filter (\<lambda>(k, c). k = ''42'' \<or> ci_id c = ''42'' \<or> ci_uniqueid c = Some ''42'') (activeCallsMap h2)
         = [(''42'', callInfo 9000 (payload ''42''))] \<and>
       ci_startTime (callInfo 9000 (payload ''42'')) = 9000 \<and>
       ci_duration (callInfo 9000 (payload ''42'')) = 0 \<and>
       length (activeCallsMap h2) = length (activeCallsMap h1))"
proof -
  have a: "registry_ok (activeCallsMap \<lparr>activeCallsMap = [], lastAlertCheck = 0\<rparr>)"
    and b: "cd_uniqueid (payload ''42'') = Some ''42''" and c: "''42'' \<noteq> []"
    by (simp_all add: payload_def)
  from a b c call_started_twice [OF a b b c, of 1000 9000] show ?thesis
    by blast
qed

section \<open>Properties of the alert rules\<close>

lemma emitted_alerts_check:
  "30000 \<le> now - lastAlertCheck h \<Longrightarrow>
   emitted_alerts (snd (checkAndEmitAlerts svc now queues agents h))
     = concat (map (queueAlerts now) queues) @ availabilityAlerts now agents @ connectivityAlerts svc now"
  by (simp add: checkAndEmitAlerts_def Let_def)

lemma high_volume_concat:
  "length (filter (\<lambda>a. al_title a = ''High Queue Volume'') (concat (map (queueAlerts now) queues)))
     = length (filter (\<lambda>q. 10 < q_waitingCalls q) queues)"
  by (induction queues) (simp_all add: queueAlerts_def)

lemma high_volume_others:
  "filter (\<lambda>a. al_title a = ''High Queue Volume'') (availabilityAlerts now agents) = []"
  "filter (\<lambda>a. al_title a = ''High Queue Volume'') (connectivityAlerts svc now) = []"
  by (simp_all add: availabilityAlerts_def connectivityAlerts_def Let_def)

text \<open>
  Claim C7. In an evaluation that runs the rules (30 s or more after \<open>lastAlertCheck\<close>),
  the emitted alerts hold one \<open>High Queue Volume\<close> alert per queue with more than 10
  waiting calls: a queue with \<open>waitingCalls = 10\<close> produces none, and a queue with
  \<open>waitingCalls = 11\<close> produces exactly one, of type \<open>warning\<close>.
\<close>

theorem high_volume_threshold:
  assumes run: "30000 \<le> now - lastAlertCheck h"
  shows "length (filter (\<lambda>a. al_title a = ''High Queue Volume'')
                  (emitted_alerts (snd (checkAndEmitAlerts svc now queues agents h))))
           = length (filter (\<lambda>q. 10 < q_waitingCalls q) queues) \<and>
         (q_waitingCalls q = 10 \<longrightarrow>
            filter (\<lambda>a. al_title a = ''High Queue Volume'')
              (emitted_alerts (snd (checkAndEmitAlerts svc now [q] agents h))) = []) \<and>
         (q_waitingCalls q = 11 \<longrightarrow>
            filter (\<lambda>a. al_title a = ''High Queue Volume'')
              (emitted_alerts (snd (checkAndEmitAlerts svc now [q] agents h)))
            = [\<lparr>al_type = ''warning'', al_title = ''High Queue Volume'',
                al_message = ''Queue '' @ [CHR 0x22] @ q_name q @ [CHR 0x22] @ '' has 11 waiting calls'',
                al_queueId = q_id q, al_timestamp = now\<rparr>])"
proof -
  have eleven: "string_of_int 11 = ''11''"
    by (simp add: string_of_int_def string_of_nat.simps)
  show ?thesis
    by (simp add: emitted_alerts_check [OF run] high_volume_concat high_volume_others)
       (simp add: queueAlerts_def eleven)
qed


theorem high_volume_threshold_witness:
  "length (filter (\<lambda>a. al_title a = ''High Queue Volume'')
            (emitted_alerts (snd (checkAndEmitAlerts (FreePBXService (Some ''http://pbx:8080'') None) 30000
               [plain_queue 10 0, plain_queue 11 0] [] (constructor [] 0))))) = 1 \<and>
   filter (\<lambda>a. al_title a = ''High Queue Volume'')
     (emitted_alerts (snd (checkAndEmitAlerts (FreePBXService (Some ''http://pbx:8080'') None) 30000
        [plain_queue 10 0] [] (constructor [] 0)))) = [] \<and>
   filter (\<lambda>a. al_title a = ''High Queue Volume'')
     (emitted_alerts (snd (checkAndEmitAlerts (FreePBXService (Some ''http://pbx:8080'') None) 30000
        [plain_queue 11 0] [] (constructor [] 0))))
   = [\<lparr>al_type = ''warning'', al_title = ''High Queue Volume'',
       al_message = ''Queue '' @ [CHR 0x22] @ ''Queue 7001'' @ [CHR 0x22] @ '' has 11 waiting calls'',
       al_queueId = Some ''7001'', al_timestamp = 30000\<rparr>]"
proof -
  have run: "30000 \<le> 30000 - lastAlertCheck (constructor [] 0)"
    by (simp add: constructor_def)
  show ?thesis
    using high_volume_threshold [OF run, of "FreePBXService (Some ''http://pbx:8080'') None"
            "[plain_queue 10 0, plain_queue 11 0]" "[]" "plain_queue 10 0"]
          high_volume_threshold [OF run, of "FreePBXService (Some ''http://pbx:8080'') None"
            "[plain_queue 10 0, plain_queue 11 0]" "[]" "plain_queue 11 0"]
    by (simp add: plain_queue_def)
qed

lemma evaluations_after:
  "sorted (map fst invs) \<Longrightarrow> \<forall>t \<in> set (map fst invs). lastAlertCheck h \<le> t \<Longrightarrow>
   (t, evs) \<in> set (evaluations svc invs h) \<Longrightarrow> evs \<noteq> [] \<Longrightarrow> 30000 \<le> t - lastAlertCheck h"
proof (induction invs arbitrary: h)
  case Nil
  then show ?case by simp
next
  case (Cons inv invs)
  obtain now queues agents where inv: "inv = (now, queues, agents)"
    by (cases inv)
  show ?case
  proof (cases "now - lastAlertCheck h < 30000")
    case True
    then have step: "checkAndEmitAlerts svc now queues agents h = (h, [])"
      by (simp add: checkAndEmitAlerts_def)
    with Cons.prems inv have "(t, evs) \<in> set (evaluations svc invs h)"
      by auto
    with Cons.IH [of h] Cons.prems show ?thesis
      by (simp add: inv)
  next
    case False
    obtain h' out where step: "checkAndEmitAlerts svc now queues agents h = (h', out)"
      by (cases "checkAndEmitAlerts svc now queues agents h")
    with False have last: "lastAlertCheck h' = now"
      by (auto simp: checkAndEmitAlerts_def Let_def)
    from Cons.prems inv step consider "t = now" | "(t, evs) \<in> set (evaluations svc invs h')"
      by auto
    then show ?thesis
    proof cases
      case 1
      with False show ?thesis by simp
    next
      case 2
      from Cons.prems inv have "\<forall>t \<in> set (map fst invs). lastAlertCheck h' \<le> t"
        by (auto simp: last)
      with Cons.IH [of h'] Cons.prems 2 have "30000 \<le> t - now"
        by (simp add: last)
      with False show ?thesis by simp
    qed
  qed
qed

lemma evaluations_debounce:
  "sorted (map fst invs) \<Longrightarrow> \<forall>t \<in> set (map fst invs). lastAlertCheck h \<le> t \<Longrightarrow>
   sorted_wrt (\<lambda>a b. 30000 \<le> fst b - fst a)
     (filter (\<lambda>r. snd r \<noteq> []) (evaluations svc invs h))"
proof (induction invs arbitrary: h)
  case Nil
  then show ?case by simp
next
  case (Cons inv invs)
  obtain now queues agents where inv: "inv = (now, queues, agents)"
    by (cases inv)
  obtain h' out where step: "checkAndEmitAlerts svc now queues agents h = (h', out)"
    by (cases "checkAndEmitAlerts svc now queues agents h")
  from Cons.prems inv have sorted: "sorted (map fst invs)" and later: "\<forall>t \<in> set (map fst invs). now \<le> t"
    by auto
  show ?case
  proof (cases "now - lastAlertCheck h < 30000")
    case True
    with step have "h' = h" "out = []"
      by (simp_all add: checkAndEmitAlerts_def)
    with Cons.IH [of h] Cons.prems show ?thesis
      by (simp add: inv step)
  next
    case False
    with step have last: "lastAlertCheck h' = now"
      by (auto simp: checkAndEmitAlerts_def Let_def)
    from later have later': "\<forall>t \<in> set (map fst invs). lastAlertCheck h' \<le> t"
      by (simp add: last)
    have rest: "sorted_wrt (\<lambda>a b. 30000 \<le> fst b - fst a)
                  (filter (\<lambda>r. snd r \<noteq> []) (evaluations svc invs h'))"
      using sorted later' by (rule Cons.IH)
    have "30000 \<le> fst r - now" if "r \<in> set (evaluations svc invs h')" "snd r \<noteq> []" for r
      using evaluations_after [OF sorted later', of "fst r" "snd r" svc] that
      by (simp add: last)
    with rest show ?thesis
      by (simp add: inv step)
  qed
qed


text \<open>
  Claim C3, as amended. However often \<open>checkAndEmitAlerts\<close> is invoked on a clock that
  does not run backwards, two invocations that emit are at least 30 s apart. With a queue at
  \<open>longestWait = 400\<close> as the only condition that qualifies, two evaluations 5 s apart, the
  first of them 30 s or more after \<open>lastAlertCheck\<close> (the construction of the handler or
  the last evaluation that ran the rules), emit that one warning alert on the first and
  nothing on the second. An evaluation less than 30 s after \<open>lastAlertCheck\<close> emits
  nothing, whatever the queues are.
\<close>

theorem alert_debounce:
  "(sorted (map fst invs) \<and> (\<forall>t \<in> set (map fst invs). lastAlertCheck h \<le> t) \<longrightarrow>
      sorted_wrt (\<lambda>a b. 30000 \<le> fst b - fst a)
        (filter (\<lambda>r. snd r \<noteq> []) (evaluations svc invs h))) \<and>
   (30000 \<le> now - lastAlertCheck h \<and> q_longestWait q = 400 \<and> q_waitingCalls q \<le> 10 \<and>
    availabilityAlerts now agents = [] \<and> connectivityAlerts svc now = [] \<longrightarrow>
      evaluations svc [(now, [q], agents), (now + 5000, [q], agents)] h
        = [(now, [DashboardAlerts
                    [\<lparr>al_type = ''warning'', al_title = ''Long Wait Time'',
                      al_message = ''Queue '' @ [CHR 0x22] @ q_name q @ [CHR 0x22]
                                   @ '' has calls waiting 6 minutes'',
                      al_queueId = q_id q, al_timestamp = now\<rparr>]]),
           (now + 5000, [])]) \<and>
   (now - lastAlertCheck h < 30000 \<longrightarrow> snd (checkAndEmitAlerts svc now queues agents h) = [])"
proof (intro conjI impI)
  assume "sorted (map fst invs) \<and> (\<forall>t \<in> set (map fst invs). lastAlertCheck h \<le> t)"
  then show "sorted_wrt (\<lambda>a b. 30000 \<le> fst b - fst a)
               (filter (\<lambda>r. snd r \<noteq> []) (evaluations svc invs h))"
    by (simp add: evaluations_debounce)
next
  assume a: "30000 \<le> now - lastAlertCheck h \<and> q_longestWait q = 400 \<and> q_waitingCalls q \<le> 10 \<and>
             availabilityAlerts now agents = [] \<and> connectivityAlerts svc now = []"
  have six: "string_of_int 6 = ''6''"
    by (simp add: string_of_int_def string_of_nat.simps)
  from a have qa: "queueAlerts now q =
      [\<lparr>al_type = ''warning'', al_title = ''Long Wait Time'',
        al_message = ''Queue '' @ [CHR 0x22] @ q_name q @ [CHR 0x22] @ '' has calls waiting 6 minutes'',
        al_queueId = q_id q, al_timestamp = now\<rparr>]"
    by (simp add: queueAlerts_def six)
  from a have first: "checkAndEmitAlerts svc now [q] agents h
      = (h\<lparr>lastAlertCheck := now\<rparr>, [DashboardAlerts (queueAlerts now q)])"
    by (simp add: checkAndEmitAlerts_def Let_def qa)
  have second: "checkAndEmitAlerts svc (now + 5000) [q] agents (h\<lparr>lastAlertCheck := now\<rparr>)
      = (h\<lparr>lastAlertCheck := now\<rparr>, [])"
    by (simp add: checkAndEmitAlerts_def)
  show "evaluations svc [(now, [q], agents), (now + 5000, [q], agents)] h
        = [(now, [DashboardAlerts
                    [\<lparr>al_type = ''warning'', al_title = ''Long Wait Time'',
                      al_message = ''Queue '' @ [CHR 0x22] @ q_name q @ [CHR 0x22]
                                   @ '' has calls waiting 6 minutes'',
                      al_queueId = q_id q, al_timestamp = now\<rparr>]]),
           (now + 5000, [])]"
    by (simp add: first second qa)
next
  assume "now - lastAlertCheck h < 30000"
  then show "snd (checkAndEmitAlerts svc now queues agents h) = []"
    by (simp add: checkAndEmitAlerts_def)
qed

theorem alert_debounce_witness:
  "sorted_wrt (\<lambda>a b. 30000 \<le> fst b - fst a)
     (filter (\<lambda>r. snd r \<noteq> [])
        (evaluations (FreePBXService (Some ''http://pbx:8080'') None)
           [(30000, [plain_queue 0 400], []), (35000, [plain_queue 0 400], []),
            (60000, [plain_queue 0 400], [])]
           (constructor [] 0))) \<and>
   evaluations (FreePBXService (Some ''http://pbx:8080'') None)
     [(30000, [plain_queue 0 400], []), (30000 + 5000, [plain_queue 0 400], [])] (constructor [] 0)
     = [(30000, [DashboardAlerts
                   [\<lparr>al_type = ''warning'', al_title = ''Long Wait Time'',
                     al_message = ''Queue '' @ [CHR 0x22] @ ''Queue 7001'' @ [CHR 0x22]
                                  @ '' has calls waiting 6 minutes'',
                     al_queueId = Some ''7001'', al_timestamp = 30000\<rparr>]]),
        (30000 + 5000, [])] \<and>
   snd (checkAndEmitAlerts (FreePBXService (Some ''http://pbx:8080'') None) 29999
          [plain_queue 0 400] [] (constructor [] 0)) = []"
proof -
  have a: "sorted (map fst [(30000::int, [plain_queue 0 400], []::agent list), (35000, [plain_queue 0 400], []),
            (60000, [plain_queue 0 400], [])]) \<and>
           (\<forall>t \<in> set (map fst [(30000::int, [plain_queue 0 400], []::agent list), (35000, [plain_queue 0 400], []),
            (60000, [plain_queue 0 400], [])]). lastAlertCheck (constructor [] 0) \<le> t)"
    by (simp add: constructor_def)
  have b: "30000 \<le> 30000 - lastAlertCheck (constructor [] 0) \<and> q_longestWait (plain_queue 0 400) = 400 \<and>
           q_waitingCalls (plain_queue 0 400) \<le> 10 \<and> availabilityAlerts 30000 [] = [] \<and>
           connectivityAlerts (FreePBXService (Some ''http://pbx:8080'') None) 30000 = []"
    by (simp add: constructor_def plain_queue_def availabilityAlerts_def connectivityAlerts_def
          FreePBXService_def or_str_def or_opt_def)
  have c: "29999 - lastAlertCheck (constructor [] 0) < 30000"
    by (simp add: constructor_def)
  have n: "q_name (plain_queue 0 400) = ''Queue 7001''" "q_id (plain_queue 0 400) = Some ''7001''"
    by (simp_all add: plain_queue_def)
  have t1: "sorted_wrt (\<lambda>a b. 30000 \<le> fst b - fst a)
     (filter (\<lambda>r. snd r \<noteq> [])
        (evaluations (FreePBXService (Some ''http://pbx:8080'') None)
           [(30000, [plain_queue 0 400], []), (35000, [plain_queue 0 400], []),
            (60000, [plain_queue 0 400], [])]
           (constructor [] 0)))"
    using a alert_debounce [of "[(30000, [plain_queue 0 400], []), (35000, [plain_queue 0 400], []),
            (60000, [plain_queue 0 400], [])]" "constructor [] 0"
            "FreePBXService (Some ''http://pbx:8080'') None" 0 "plain_queue 0 0" "[]" "[]"]
    by blast
  have t2: "evaluations (FreePBXService (Some ''http://pbx:8080'') None)
     [(30000, [plain_queue 0 400], []), (30000 + 5000, [plain_queue 0 400], [])] (constructor [] 0)
     = [(30000, [DashboardAlerts
                   [\<lparr>al_type = ''warning'', al_title = ''Long Wait Time'',
                     al_message = ''Queue '' @ [CHR 0x22] @ q_name (plain_queue 0 400) @ [CHR 0x22]
                                  @ '' has calls waiting 6 minutes'',
                     al_queueId = q_id (plain_queue 0 400), al_timestamp = 30000\<rparr>]]),
        (30000 + 5000, [])]"
    using b alert_debounce [of "[]" "constructor [] 0"
            "FreePBXService (Some ''http://pbx:8080'') None" 30000 "plain_queue 0 400" "[]" "[]"]
    by blast
  have t3: "snd (checkAndEmitAlerts (FreePBXService (Some ''http://pbx:8080'') None) 29999
          [plain_queue 0 400] [] (constructor [] 0)) = []"
    using c alert_debounce [of "[]" "constructor [] 0"
            "FreePBXService (Some ''http://pbx:8080'') None" 29999 "plain_queue 0 400" "[]" "[plain_queue 0 400]"]
    by blast
  from t1 t2 t3 show ?thesis
    by (simp only: n)
qed

text \<open>
  The claim as stated fails on a handler constructed at time 0: with a queue at
  \<open>longestWait = 400\<close>, the evaluations at 1 s and 6 s both emit nothing.
\<close>

theorem alert_first_evaluation_counterexample:
  "evaluations (FreePBXService (Some ''http://pbx:8080'') None)
     [(1000, [plain_queue 0 400], []), (6000, [plain_queue 0 400], [])] (constructor [] 0)
   = [(1000, []), (6000, [])]"
  by (simp add: checkAndEmitAlerts_def constructor_def)

section \<open>Properties of the service and of the tick\<close>

lemma Math_random_range: "0 \<le> Math_random rnd k" "Math_random rnd k < 1"
  by (simp_all add: Math_random_def frac_lt_1)

lemma foldl_add_sum:
  "foldl (\<lambda>sum q. sum + f q) a qs = a + sum_list (map f qs)" for a :: int
  by (induction qs arbitrary: a) simp_all

lemma fold_max_Max: "fold max xs a = Max (insert a (set xs))" for a :: int
proof (induction xs arbitrary: a)
  case Nil
  show ?case by simp
next
  case (Cons x xs)
  have "fold max (x # xs) a = Max (insert (max x a) (set xs))"
    by (simp add: Cons.IH)
  also have "\<dots> = Max (insert a (set (x # xs)))"
  proof (cases "set xs = {}")
    case True
    then show ?thesis by (simp add: max.commute)
  next
    case False
    then show ?thesis by (simp add: max.assoc max.commute max.left_commute)
  qed
  finally show ?case .
qed

lemma to_double_not_NaN: "to_double q \<noteq> NaN"
  by (simp add: to_double_def Let_def)

lemma floor_rat_numeral: "\<lfloor>numeral a / numeral b :: rat\<rfloor> = numeral a div numeral b"
  by (metis floor_divide_of_int_eq of_int_numeral)

text \<open>
  Claim C10. The statistics are defined on an empty queue list. The average wait is the sum
  of the queues' average waits divided by the number of queues, or by 1 when there is none:
  with no queue it is \<open>0 / 1 = 0\<close>, where the division by the bare count would be
  \<open>0 / 0 = NaN\<close>, and on every queue list it is the double of the guarded quotient, never
  \<open>NaN\<close>. The longest wait is the maximum of 0 and the queues' longest waits: 0 with no queue.
\<close>

theorem callCenterStats_total:
  "qt_averageWaitTime (st_queues (callCenterStats now agents [] calls)) = Finite 0 \<and>
   qt_longestWaitTime (st_queues (callCenterStats now agents [] calls)) = 0 \<and>
   js_divide (sum_list (map q_averageWait ([] :: queue list))) (length ([] :: queue list)) = NaN \<and>
   qt_averageWaitTime (st_queues (callCenterStats now agents queues calls))
     = to_double (rat_of_int (sum_list (map q_averageWait queues))
                  / rat_of_nat (if length queues = 0 then 1 else length queues)) \<and>
   qt_averageWaitTime (st_queues (callCenterStats now agents queues calls)) \<noteq> NaN \<and>
   qt_longestWaitTime (st_queues (callCenterStats now agents queues calls))
     = Max (insert 0 (set (map q_longestWait queues)))"
proof -
  have avg: "qt_averageWaitTime (st_queues (callCenterStats now agents qs calls))
               = to_double (rat_of_int (sum_list (map q_averageWait qs))
                            / rat_of_nat (if length qs = 0 then 1 else length qs))" for qs
    by (simp add: callCenterStats_def Let_def foldl_add_sum js_divide_def)
  have longest: "qt_longestWaitTime (st_queues (callCenterStats now agents qs calls))
                   = Max (insert 0 (set (map q_longestWait qs)))" for qs
    by (simp add: callCenterStats_def Let_def fold_max_Max)
  have nan: "js_divide (sum_list (map q_averageWait ([] :: queue list))) (length ([] :: queue list)) = NaN"
    by (simp add: js_divide_def)
  have "qt_averageWaitTime (st_queues (callCenterStats now agents [] calls)) = Finite 0"
    by (simp add: avg to_double_def)
  moreover have "qt_longestWaitTime (st_queues (callCenterStats now agents [] calls)) = 0"
    by (simp add: longest)
  moreover have "qt_averageWaitTime (st_queues (callCenterStats now agents queues calls)) \<noteq> NaN"
    by (simp only: avg to_double_not_NaN not_False_eq_True)
  ultimately show ?thesis
    using nan avg [of queues] longest [of queues] by blast
qed

theorem callCenterStats_total_witness:
  "qt_averageWaitTime (st_queues (callCenterStats 1000 [] [] [])) = Finite 0 \<and>
   qt_longestWaitTime (st_queues (callCenterStats 1000 [] [] [])) = 0 \<and>
   qt_averageWaitTime (st_queues (callCenterStats 1000 []
      [(plain_queue 3 400)\<lparr>q_averageWait := 10\<rparr>, (plain_queue 0 20)\<lparr>q_averageWait := 10\<rparr>,
       (plain_queue 0 0)\<lparr>q_averageWait := 11\<rparr>] []))
     = Finite (5817149518686891 / 562949953421312) \<and>
   qt_longestWaitTime (st_queues (callCenterStats 1000 []
      [(plain_queue 3 400)\<lparr>q_averageWait := 10\<rparr>, (plain_queue 0 20)\<lparr>q_averageWait := 10\<rparr>,
       (plain_queue 0 0)\<lparr>q_averageWait := 11\<rparr>] []))
     = 400"
proof -
  have e: "exponent (31 / 3) = 3"
    by (simp add: exponent_def bit_length.simps floor_rat_numeral)
  have d: "to_double (31 / 3) = Finite (5817149518686891 / 562949953421312)"
    by (simp add: to_double_def e pow2_def round_half_even_def Let_def floor_rat_numeral)
  show ?thesis
    using callCenterStats_total [of 1000 "[]" "[]"
            "[(plain_queue 3 400)\<lparr>q_averageWait := 10\<rparr>, (plain_queue 0 20)\<lparr>q_averageWait := 10\<rparr>,
              (plain_queue 0 0)\<lparr>q_averageWait := 11\<rparr>]"]
    by (simp add: plain_queue_def d)
qed

lemma floor_random_bounds:
  "0 \<le> \<lfloor>Math_random rnd k * rat_of_nat n\<rfloor>"
  "0 < n \<Longrightarrow> \<lfloor>Math_random rnd k * rat_of_nat n\<rfloor> < int n"
proof -
  have r: "0 \<le> Math_random rnd k" "Math_random rnd k < 1"
    by (rule Math_random_range)+
  then show "0 \<le> \<lfloor>Math_random rnd k * rat_of_nat n\<rfloor>"
    by simp
  assume "0 < n"
  with r have "Math_random rnd k * rat_of_nat n < rat_of_nat n"
    by simp
  then show "\<lfloor>Math_random rnd k * rat_of_nat n\<rfloor> < int n"
    by (simp add: floor_less_iff)
qed

lemma pick_in_set:
  assumes "xs \<noteq> []"
  shows "pick xs (Math_random rnd k) \<in> set xs"
proof -
  let ?j = "\<lfloor>Math_random rnd k * rat_of_nat (length xs)\<rfloor>"
  from assms have "0 < length xs"
    by simp
  then have "?j < int (length xs)"
    by (rule floor_random_bounds(2))
  moreover have "0 \<le> ?j"
    by (rule floor_random_bounds(1))
  ultimately have "0 \<le> ?j" "?j < int (length xs)"
    by blast+
  then have "nat ?j < length xs"
    by linarith
  then show ?thesis
    unfolding pick_def by (rule nth_mem)
qed

lemma mockAgent_fields:
  "ag_name (fst (mockAgent now rnd i name k)) = name"
  "ag_department (fst (mockAgent now rnd i name k)) = departments ! (i mod 4)"
  "ag_status (fst (mockAgent now rnd i name k)) = pick statuses (Math_random rnd k)"
  by (simp_all add: mockAgent_def Let_def departments_def split: prod.splits)

lemma mockAgents_from_names: "map ag_name (mockAgents_from now rnd i ns k) = ns"
proof (induction ns arbitrary: i k)
  case Nil
  show ?case by simp
next
  case (Cons n ns)
  obtain a k' where m: "mockAgent now rnd i n k = (a, k')"
    by (cases "mockAgent now rnd i n k")
  with mockAgent_fields(1) [of now rnd i n k] have "ag_name a = n"
    by simp
  with Cons m show ?case
    by simp
qed

lemma mockAgents_from_departments:
  "map ag_department (mockAgents_from now rnd i ns k)
     = map (\<lambda>j. departments ! (j mod 4)) [i..<i + length ns]"
proof (induction ns arbitrary: i k)
  case Nil
  show ?case by simp
next
  case (Cons n ns)
  obtain a k' where m: "mockAgent now rnd i n k = (a, k')"
    by (cases "mockAgent now rnd i n k")
  with mockAgent_fields(2) [of now rnd i n k] have "ag_department a = departments ! (i mod 4)"
    by simp
  moreover have "[i..<i + length (n # ns)] = i # [Suc i..<Suc i + length ns]"
    by (simp add: upt_conv_Cons del: upt_Suc)
  ultimately show ?case
    using Cons [of "Suc i" k'] m by simp
qed

lemma mockAgents_from_statuses:
  "a \<in> set (mockAgents_from now rnd i ns k) \<Longrightarrow> ag_status a \<in> set statuses"
proof (induction ns arbitrary: i k)
  case Nil
  then show ?case by simp
next
  case (Cons n ns)
  obtain b k' where m: "mockAgent now rnd i n k = (b, k')"
    by (cases "mockAgent now rnd i n k")
  have "pick statuses (Math_random rnd k) \<in> set statuses"
    by (rule pick_in_set) (simp add: statuses_def)
  with mockAgent_fields(3) [of now rnd i n k] m have "ag_status b \<in> set statuses"
    by simp
  with Cons m show ?case
    by auto
qed

lemma length_getMockCalls:
  "2 \<le> length (getMockCalls now rnd)" "length (getMockCalls now rnd) \<le> 9"
proof -
  have "0 \<le> \<lfloor>Math_random rnd 0 * rat_of_nat 8\<rfloor>"
    by (rule floor_random_bounds(1))
  moreover have "\<lfloor>Math_random rnd 0 * rat_of_nat 8\<rfloor> < int 8"
    by (rule floor_random_bounds(2)) simp
  ultimately have "0 \<le> \<lfloor>Math_random rnd 0 * rat_of_nat 8\<rfloor>" "\<lfloor>Math_random rnd 0 * rat_of_nat 8\<rfloor> < int 8"
    by blast+
  then have b: "0 \<le> \<lfloor>Math_random rnd 0 * 8\<rfloor>" "\<lfloor>Math_random rnd 0 * 8\<rfloor> < 8"
    by simp_all
  have "length (getMockCalls now rnd) = nat (\<lfloor>Math_random rnd 0 * 8\<rfloor> + 2)"
    by (simp add: getMockCalls_def Let_def)
  with b show "2 \<le> length (getMockCalls now rnd)" "length (getMockCalls now rnd) \<le> 9"
    by linarith+
qed

text \<open>
  Claim C4, as amended. Whatever numbers are drawn, the synthetic data have a fixed frame: the
  twelve agent names in their order, each agent's department cycling through the four
  queues, every agent status one of the four statuses, four queues with fixed identifiers
  and names, and between two and nine calls. The statuses, the call details and the
  waiting figures are drawn anew at every invocation.
\<close>

theorem mock_data_shape:
  "map ag_name (getMockAgents now rnd) = names \<and>
   length (getMockAgents now rnd) = 12 \<and>
   map ag_department (getMockAgents now rnd) = departments @ departments @ departments \<and>
   (\<forall>a \<in> set (getMockAgents now rnd). ag_status a \<in> set statuses) \<and>
   map q_id (getMockQueues rnd) = [Some ''queue_1'', Some ''queue_2'', Some ''queue_3'', Some ''queue_4''] \<and>
   map q_name (getMockQueues rnd) = departments \<and>
   2 \<le> length (getMockCalls now rnd) \<and> length (getMockCalls now rnd) \<le> 9"
proof -
  have n: "map ag_name (getMockAgents now rnd) = names"
    by (simp add: getMockAgents_def mockAgents_from_names)
  then have "length (map ag_name (getMockAgents now rnd)) = length names"
    by simp
  then have l: "length (getMockAgents now rnd) = 12"
    by (simp add: names_def)
  have "map ag_department (getMockAgents now rnd)
          = map (\<lambda>j. departments ! (j mod 4)) [0..<0 + length names]"
    unfolding getMockAgents_def by (rule mockAgents_from_departments)
  also have "[0..<0 + length names] = [0, 1, 2, 3, 4, 5, 6, 7, 8, 9, 10, 11]"
    by (simp add: names_def upt_rec)
  finally have d: "map ag_department (getMockAgents now rnd) = departments @ departments @ departments"
    by (simp add: departments_def)
  have s: "\<forall>a \<in> set (getMockAgents now rnd). ag_status a \<in> set statuses"
    by (auto simp: getMockAgents_def dest: mockAgents_from_statuses)
  have q: "map q_id (getMockQueues rnd)
             = [Some ''queue_1'', Some ''queue_2'', Some ''queue_3'', Some ''queue_4'']"
      "map q_name (getMockQueues rnd) = departments"
    by (simp_all add: getMockQueues_def mockQueue_def departments_def)
  from n l d s q length_getMockCalls [of now rnd] show ?thesis
    by blast
qed


theorem mock_data_shape_witness:
  "map ag_name (getMockAgents 1000 (\<lambda>_. 1 / 2)) = names \<and>
   length (getMockAgents 1000 (\<lambda>_. 1 / 2)) = 12 \<and>
   ag_status (hd (getMockAgents 1000 (\<lambda>_. 1 / 2))) \<in> set statuses \<and>
   map q_name (getMockQueues (\<lambda>_. 1 / 2)) = departments \<and>
   2 \<le> length (getMockCalls 1000 (\<lambda>_. 1 / 2)) \<and> length (getMockCalls 1000 (\<lambda>_. 1 / 2)) \<le> 9"
proof -
  note shape = mock_data_shape [of 1000 "\<lambda>_. 1 / 2"]
  from shape have "getMockAgents 1000 (\<lambda>_. 1 / 2) \<noteq> []"
    by auto
  then have "hd (getMockAgents 1000 (\<lambda>_. 1 / 2)) \<in> set (getMockAgents 1000 (\<lambda>_. 1 / 2))"
    by (rule hd_in_set)
  with shape show ?thesis
    by blast
qed

text \<open>
  The claim as stated fails: two invocations at the same instant that draw different numbers
  return different agents and different calls, and the statuses do not cycle (when every
  number drawn is 0, all twelve agents are available).
\<close>

theorem mock_data_counterexample:
  "getMockAgents 1000 (\<lambda>_. 0) \<noteq> getMockAgents 1000 (\<lambda>_. 1 / 2) \<and>
   getMockCalls 1000 (\<lambda>_. 0) \<noteq> getMockCalls 1000 (\<lambda>_. 1 / 2) \<and>
   map ag_status (getMockAgents 1000 (\<lambda>_. 0))
     = [''available'', ''available'', ''available'', ''available'', ''available'', ''available'',
        ''available'', ''available'', ''available'', ''available'', ''available'', ''available'']"
proof -
  have a: "map ag_status (getMockAgents 1000 (\<lambda>_. 0))
     = [''available'', ''available'', ''available'', ''available'', ''available'', ''available'',
        ''available'', ''available'', ''available'', ''available'', ''available'', ''available'']"
    by (simp add: getMockAgents_def names_def mockAgent_def Let_def Math_random_def pick_def
          statuses_def)
  have b: "map ag_status (getMockAgents 1000 (\<lambda>_. 1 / 2))
     = [''away'', ''away'', ''away'', ''away'', ''away'', ''away'',
        ''away'', ''away'', ''away'', ''away'', ''away'', ''away'']"
    by (simp add: getMockAgents_def names_def mockAgent_def Let_def Math_random_def pick_def
          statuses_def)
  have c: "length (getMockCalls 1000 (\<lambda>_. 0)) = 2" "length (getMockCalls 1000 (\<lambda>_. 1 / 2)) = 6"
    by (simp_all add: getMockCalls_def Math_random_def)
  from a b have "getMockAgents 1000 (\<lambda>_. 0) \<noteq> getMockAgents 1000 (\<lambda>_. 1 / 2)"
    by auto
  moreover from c have "getMockCalls 1000 (\<lambda>_. 0) \<noteq> getMockCalls 1000 (\<lambda>_. 1 / 2)"
    by auto
  ultimately show ?thesis
    using a by blast
qed

text \<open>
  Claim C2. With a connector configured, a successful response with an empty list makes
  \<open>getAgents\<close> and \<open>getQueues\<close> return the synthetic data, as a failed request does.
  \<open>getActiveCalls\<close> has no such check: it returns the empty list, although a failed
  request makes it return the synthetic calls, which are never empty.
\<close>

theorem empty_payload_fetches:
  "getAgents (svc\<lparr>useMockData := False\<rparr>) now rnd (Ok (Some [])) reg = (getMockAgents now rnd, reg) \<and>
   getQueues (svc\<lparr>useMockData := False\<rparr>) rnd (Ok (Some [])) = getMockQueues rnd \<and>
   getActiveCalls (svc\<lparr>useMockData := False\<rparr>) now rnd (Ok (Some [])) = [] \<and>
   getActiveCalls (svc\<lparr>useMockData := False\<rparr>) now rnd Failed = getMockCalls now rnd \<and>
   getMockCalls now rnd \<noteq> []"
  using length_getMockCalls(1) [of now rnd]
  by (auto simp: getAgents_def getQueues_def getActiveCalls_def data_or_empty_def)


lemma refresh_getActiveCallForUser:
  "map (\<lambda>(k, c). (k, c\<lparr>ci_duration := (now - ci_startTime c) div 1000\<rparr>))
     (fst (getActiveCallForUser now u m))
   = map (\<lambda>(k, c). (k, c\<lparr>ci_duration := (now - ci_startTime c) div 1000\<rparr>)) m"
  by (induction m) (auto simp: Let_def split: prod.splits)

lemma refresh_mapAgent:
  "map (\<lambda>(k, c). (k, c\<lparr>ci_duration := (now - ci_startTime c) div 1000\<rparr>))
     (snd (mapAgent svc now a reg))
   = map (\<lambda>(k, c). (k, c\<lparr>ci_duration := (now - ci_startTime c) div 1000\<rparr>)) reg"
proof (cases "wsHandler svc \<and> ad_status a = Some ''busy'' \<and> ad_currentCall a \<noteq> None")
  case True
  obtain reg' r where g: "getActiveCallForUser now (ad_id a) reg = (reg', r)"
    by (cases "getActiveCallForUser now (ad_id a) reg")
  with True have "snd (mapAgent svc now a reg) = reg'"
    by (cases r) (simp_all add: mapAgent_def)
  with refresh_getActiveCallForUser [of now "ad_id a" reg] g show ?thesis
    by simp
next
  case False
  then have "snd (mapAgent svc now a reg) = reg"
    by (auto simp: mapAgent_def)
  then show ?thesis
    by simp
qed

lemma refresh_mapAgents:
  "map (\<lambda>(k, c). (k, c\<lparr>ci_duration := (now - ci_startTime c) div 1000\<rparr>))
     (snd (mapAgents svc now as reg))
   = map (\<lambda>(k, c). (k, c\<lparr>ci_duration := (now - ci_startTime c) div 1000\<rparr>)) reg"
proof (induction as arbitrary: reg)
  case Nil
  show ?case by simp
next
  case (Cons a as)
  obtain b reg' where m: "mapAgent svc now a reg = (b, reg')"
    by (cases "mapAgent svc now a reg")
  with refresh_mapAgent [of now svc a reg]
  have "map (\<lambda>(k, c). (k, c\<lparr>ci_duration := (now - ci_startTime c) div 1000\<rparr>)) reg'
        = map (\<lambda>(k, c). (k, c\<lparr>ci_duration := (now - ci_startTime c) div 1000\<rparr>)) reg"
    by simp
  moreover obtain bs reg'' where ms: "mapAgents svc now as reg' = (bs, reg'')"
    by (cases "mapAgents svc now as reg'")
  ultimately show ?case
    using Cons [of reg'] m by simp
qed

lemma refresh_getAgents:
  "map (\<lambda>(k, c). (k, c\<lparr>ci_duration := (now - ci_startTime c) div 1000\<rparr>))
     (snd (getAgents svc now rnd resp reg))
   = map (\<lambda>(k, c). (k, c\<lparr>ci_duration := (now - ci_startTime c) div 1000\<rparr>)) reg"
  by (simp add: getAgents_def Let_def refresh_mapAgents split: response.splits)

lemma refresh_getCallCenterStats:
  "map (\<lambda>(k, c). (k, c\<lparr>ci_duration := (now - ci_startTime c) div 1000\<rparr>))
     (snd (getCallCenterStats svc now g reg))
   = map (\<lambda>(k, c). (k, c\<lparr>ci_duration := (now - ci_startTime c) div 1000\<rparr>)) reg"
proof -
  obtain agents reg' where a: "getAgents svc now (f_rnd_agents g) (f_agents g) reg = (agents, reg')"
    by (cases "getAgents svc now (f_rnd_agents g) (f_agents g) reg")
  with refresh_getAgents [of now svc "f_rnd_agents g" "f_agents g" reg] show ?thesis
    by (simp add: getCallCenterStats_def Let_def)
qed

lemma checkAndEmitAlerts_registry:
  "activeCallsMap (fst (checkAndEmitAlerts svc now qs ags h)) = activeCallsMap h"
  by (simp add: checkAndEmitAlerts_def Let_def)

lemma checkAndEmitAlerts_no_calls:
  "emitted_calls (snd (checkAndEmitAlerts svc now qs ags h)) = []"
  by (simp add: checkAndEmitAlerts_def Let_def)

lemma checkAndEmitAlerts_no_queues:
  "emitted_queues (snd (checkAndEmitAlerts svc now qs ags h)) = []"
  by (simp add: checkAndEmitAlerts_def Let_def)

lemma broadcastUpdates_calls:
  "emitted_calls (snd (broadcastUpdates svc now f g h))
     = [getActiveCalls svc now (f_rnd_calls f) (f_calls f)]"
  using checkAndEmitAlerts_no_calls
  by (simp add: broadcastUpdates_def Let_def split: prod.splits) (metis snd_conv)

lemma broadcastUpdates_queues:
  "emitted_queues (snd (broadcastUpdates svc now f g h))
     = [getQueues svc (f_rnd_queues f) (f_queues f)]"
  using checkAndEmitAlerts_no_queues
  by (simp add: broadcastUpdates_def Let_def split: prod.splits) (metis snd_conv)

lemma broadcastUpdates_registry:
  "activeCallsMap (fst (broadcastUpdates svc now f g h))
     = map (\<lambda>(k, c). (k, c\<lparr>ci_duration := (now - ci_startTime c) div 1000\<rparr>)) (activeCallsMap h)"
proof -
  obtain agents reg1 where a: "getAgents svc now (f_rnd_agents f) (f_agents f) (activeCallsMap h) = (agents, reg1)"
    by (cases "getAgents svc now (f_rnd_agents f) (f_agents f) (activeCallsMap h)")
  obtain stats reg2 where s: "getCallCenterStats svc now g reg1 = (stats, reg2)"
    by (cases "getCallCenterStats svc now g reg1")
  let ?N = "\<lambda>(k, c). (k, c\<lparr>ci_duration := (now - ci_startTime c) div 1000\<rparr>)"
  from refresh_getAgents [of now svc "f_rnd_agents f" "f_agents f" "activeCallsMap h"] a
  have 1: "map ?N reg1 = map ?N (activeCallsMap h)"
    by simp
  from refresh_getCallCenterStats [of now svc g reg1] s
  have 2: "map ?N reg2 = map ?N reg1"
    by simp
  let ?h1 = "updateCallDurations now (h\<lparr>activeCallsMap := reg2\<rparr>)"
  let ?queues = "getQueues svc (f_rnd_queues f) (f_queues f)"
  obtain h2 alerts where c: "checkAndEmitAlerts svc now ?queues agents ?h1 = (h2, alerts)"
    by (cases "checkAndEmitAlerts svc now ?queues agents ?h1")
  with checkAndEmitAlerts_registry [of svc now ?queues agents ?h1]
  have "activeCallsMap h2 = map ?N reg2"
    by (simp add: updateCallDurations_def)
  then have "activeCallsMap (fst (broadcastUpdates svc now f g h)) = map ?N reg2"
    by (simp add: broadcastUpdates_def Let_def a s c)
  with 1 2 show ?thesis
    by simp
qed


text \<open>
  Claim C1. The registry tracks call \<open>42\<close> since time 0, and the tick at 100 s fetches a
  call \<open>42\<close> with duration 5. Before it emits, \<open>broadcastUpdates\<close> runs
  \<open>updateCallDurations\<close>, which brings the duration in the registry to 100; the call list
  it then broadcasts still carries the fetched duration 5. The refreshed duration does
  not reach the broadcast, where the claim has it replace the fetched one.
\<close>

theorem tick_duration_not_merged:
  "map (map c_id)
     (emitted_calls (snd (broadcastUpdates (freepbxService (Some ''http://pbx:8080'')) 100000
        (answers [] [] [call_of ''42'' 5]) (answers [] [] [call_of ''42'' 5])
        (fst (handleCallStarted 0 (payload ''42'') (constructor [] 0))))))
     = [[Some ''42'']] \<and>
   map (map c_duration)
     (emitted_calls (snd (broadcastUpdates (freepbxService (Some ''http://pbx:8080'')) 100000
        (answers [] [] [call_of ''42'' 5]) (answers [] [] [call_of ''42'' 5])
        (fst (handleCallStarted 0 (payload ''42'') (constructor [] 0))))))
     = [[5]] \<and>
   map (\<lambda>(k, c). (k, ci_duration c))
     (activeCallsMap (fst (broadcastUpdates (freepbxService (Some ''http://pbx:8080'')) 100000
        (answers [] [] [call_of ''42'' 5]) (answers [] [] [call_of ''42'' 5])
        (fst (handleCallStarted 0 (payload ''42'') (constructor [] 0))))))
     = [(''42'', 100)]"
  by (simp add: broadcastUpdates_calls broadcastUpdates_registry getActiveCalls_def
        data_or_empty_def mapCall_def freepbxService_def FreePBXService_def or_str_def or_opt_def
        or_num_def answers_def call_of_def handleCallStarted_def callInfo_def payload_def
        constructor_def Let_def)

text \<open>
  Claim C5. The connector reports a queue \<open>sales\<close> without agent counts and one available
  agent of that department. The tick broadcasts the queue with the counts 0: it emits the
  list of its own \<open>getQueues\<close> call, and the recomputation in \<open>getCallCenterStats\<close> works
  on another list. The route \<open>GET /api/queues\<close>, which recomputes in the same way on the
  list it returns, answers with the counts 1.
\<close>

theorem tick_queue_counts_stay_zero:
  "map (map (\<lambda>q. (q_id q, q_agents q, q_agentsAvailable q)))
     (emitted_queues (snd (broadcastUpdates (freepbxService (Some ''http://pbx:8080'')) 100000
        (answers [agent_of ''1001'' ''sales''] [queue_of ''sales'' ''Sales''] [])
        (answers [agent_of ''1001'' ''sales''] [queue_of ''sales'' ''Sales''] [])
        (constructor [] 0))))
     = [[(Some ''sales'', 0, 0)]] \<and>
   map (\<lambda>q. (q_id q, q_agents q, q_agentsAvailable q))
     (fst (api_queues (freepbxService (Some ''http://pbx:8080'')) 100000
        (answers [agent_of ''1001'' ''sales''] [queue_of ''sales'' ''Sales''] []) []))
     = [(Some ''sales'', 1, 1)]"
proof -
  have svc: "freepbxService (Some ''http://pbx:8080'')
               = \<lparr>connectorUrl = ''http://pbx:8080'', useMockData = False, wsHandler = True\<rparr>"
    by (simp add: freepbxService_def FreePBXService_def or_str_def or_opt_def)
  have st: "mapAsteriskStatusToStandard (Some ''NOT_INUSE'') = ''available''"
    by (simp add: mapAsteriskStatusToStandard_def toLowerCase_def lower_char_def)
  have q: "getQueues (freepbxService (Some ''http://pbx:8080'')) (\<lambda>_. 0)
             (Ok (Some [queue_of ''sales'' ''Sales''])) = [mapQueue (queue_of ''sales'' ''Sales'')]"
    by (simp add: svc getQueues_def data_or_empty_def)
  have a: "fst (getAgents (freepbxService (Some ''http://pbx:8080'')) 100000 (\<lambda>_. 0)
             (Ok (Some [agent_of ''1001'' ''sales''])) [])
           = [fst (mapAgent (freepbxService (Some ''http://pbx:8080'')) 100000 (agent_of ''1001'' ''sales'') [])]"
    by (simp add: svc getAgents_def data_or_empty_def split: prod.splits)
  have ag: "ag_departments (fst (mapAgent (freepbxService (Some ''http://pbx:8080'')) 100000 (agent_of ''1001'' ''sales'') [])) = [''sales'']"
       "ag_status (fst (mapAgent (freepbxService (Some ''http://pbx:8080'')) 100000 (agent_of ''1001'' ''sales'') [])) = ''available''"
    by (simp_all add: svc mapAgent_def agent_of_def or_str_def st)
  have mq: "q_id (mapQueue (queue_of ''sales'' ''Sales'')) = Some ''sales''"
       "q_agents (mapQueue (queue_of ''sales'' ''Sales'')) = 0"
       "q_agentsAvailable (mapQueue (queue_of ''sales'' ''Sales'')) = 0"
       "q_agentsOnCall (mapQueue (queue_of ''sales'' ''Sales'')) = 0"
    by (simp_all add: mapQueue_def queue_of_def or_opt_def or_num_def)
  have tick: "map (map (\<lambda>q. (q_id q, q_agents q, q_agentsAvailable q)))
     (emitted_queues (snd (broadcastUpdates (freepbxService (Some ''http://pbx:8080'')) 100000
        (answers [agent_of ''1001'' ''sales''] [queue_of ''sales'' ''Sales''] [])
        (answers [agent_of ''1001'' ''sales''] [queue_of ''sales'' ''Sales''] [])
        (constructor [] 0))))
     = [[(Some ''sales'', 0, 0)]]"
    by (simp add: broadcastUpdates_queues answers_def q mq)
  have route: "map (\<lambda>q. (q_id q, q_agents q, q_agentsAvailable q))
     (fst (api_queues (freepbxService (Some ''http://pbx:8080'')) 100000
        (answers [agent_of ''1001'' ''sales''] [queue_of ''sales'' ''Sales''] []) []))
     = [(Some ''sales'', 1, 1)]"
    by (simp add: api_queues_def answers_def q a Let_def case_prod_beta updateQueueCounts_def mq ag)
  from tick route show ?thesis
    by (rule conjI)
qed

end
